theory Spec2Isabelle
  imports Main
begin

section \<open>Identifiers, policy records and the evaluator's collaborators\<close>

text \<open>
  The command and report interpreter of \<^verbatim>\<open>policyeval/commands.go\<close>. Matrix identifiers are
  Go strings. Everything the handlers call outside of this file of the repository (the
  policy store, the bot client, the hash functions of the standard library, the lookup
  tables of the evaluator) is a field of the record \<open>PolicyEvaluator\<close>: the theorems hold for
  every behaviour of these collaborators.
\<close>

type_synonym RoomID = string
type_synonym UserID = string
type_synonym EventID = string
type_synonym err = string

datatype EntityType = EntityTypeUser | EntityTypeRoom | EntityTypeServer

text \<open>
  \<^verbatim>\<open>event.PolicyRecommendation\<close> is a string type; the empty string is the recommendation of
  an empty \<^verbatim>\<open>ModPolicyContent{}\<close>, which the removal commands publish. The three tags are
  constants of the mautrix library.
\<close>

type_synonym PolicyRecommendation = string

definition PolicyRecommendationBan :: PolicyRecommendation where
  "PolicyRecommendationBan = ''m.ban''"

definition PolicyRecommendationUnban :: PolicyRecommendation where
  "PolicyRecommendationUnban = ''fi.mau.meowlnir.unban''"

definition PolicyRecommendationUnstableTakedown :: PolicyRecommendation where
  "PolicyRecommendationUnstableTakedown = ''org.matrix.msc4204.takedown''"

text \<open>\<^verbatim>\<open>event.ModPolicyContent\<close>; \<open>UnstableHashes\<close> is the optional \<^verbatim>\<open>PolicyHashes.SHA256\<close>.\<close>

record ModPolicyContent =
  Entity :: string
  Reason :: string
  Recommendation :: PolicyRecommendation
  UnstableHashes :: "string option"

text \<open>\<^verbatim>\<open>policylist.Policy\<close> embeds the content and adds where the record was published.\<close>

record Policy = ModPolicyContent +
  RoomID :: RoomID
  StateKey :: string
  PolicySender :: UserID
  Timestamp :: int

text \<open>The metadata of a watched list, as \<^verbatim>\<open>FindListByShortcode\<close> returns it.\<close>

record WatchedList =
  ListRoomID :: RoomID
  ListName :: string

text \<open>
  The fields of an inbound event the handlers read. \<open>TrustState\<close> is the integer enum
  \<^verbatim>\<open>id.TrustState\<close>; \<open>TrustStateCrossSignedTOFU\<close> is its library value.
\<close>

record Event =
  ID :: EventID
  Sender :: UserID
  Body :: string
  WasEncrypted :: bool
  TrustState :: int

definition TrustStateCrossSignedTOFU :: int where
  "TrustStateCrossSignedTOFU = 100"

text \<open>
  An argument of a notice's format string: a string, a count, a \<^verbatim>\<open>matrix.to\<close> link of an
  identifier or of an event, the links of a list of rooms joined by a comma, a printed
  recommendation summary, a measured duration (not modelled further). The rendering by
  \<^verbatim>\<open>fmt.Sprintf\<close> is left to the notice channel.
\<close>

datatype arg =
    S string
  | N nat
  | URL string
  | EventURL RoomID EventID
  | Links "string list"
  | Lines "arg list list"
  | Summary "Policy option"
  | Time int
  | Duration

text \<open>What a handler does to the outside world, in the order it does it.\<close>

datatype effect =
    Notice string "arg list"
  | SuccessReaction EventID
  | JoinRoomCall string
  | LeaveRoomCall RoomID
  | RedactUserCall UserID string
  | KickUserCall RoomID UserID string
  | SendStateEventCall RoomID EntityType string ModPolicyContent

text \<open>
  The evaluator: its configuration and its collaborators. A call that can fail returns
  its error (\<open>Some e\<close>, or \<open>Inl e\<close>); a call that changes the network is also recorded as an
  \<open>effect\<close> by the handler that makes it.
\<close>

record PolicyEvaluator =
  CryptoHelper :: bool
  DryRun :: bool
  Admins :: "UserID set"
  GetWatchedLists :: "RoomID list"
  FindListByShortcode :: "string \<Rightarrow> WatchedList option"
  GetWatchedListMeta :: "RoomID \<Rightarrow> WatchedList option"
  MatchExact :: "RoomID list \<Rightarrow> EntityType \<Rightarrow> string \<Rightarrow> Policy list"
  MatchUser :: "RoomID list \<Rightarrow> UserID \<Rightarrow> Policy list"
  MatchRoom :: "RoomID list \<Rightarrow> RoomID \<Rightarrow> Policy list"
  MatchServer :: "RoomID list \<Rightarrow> string \<Rightarrow> Policy list"
  Recommendations :: "Policy list \<Rightarrow> Policy option"
  findMatchingUsers :: "string \<Rightarrow> UserID list"
  getRoomsUserIsIn :: "UserID \<Rightarrow> RoomID list"
  protectedRoomName :: "RoomID \<Rightarrow> string option"
  DecodeBase64Hash :: "string \<Rightarrow> string option"
  getUserIDFromHash :: "string \<Rightarrow> UserID option"
  SHA256 :: "string \<Rightarrow> string"
  Base64 :: "string \<Rightarrow> string"
  JoinRoom :: "string \<Rightarrow> err option"
  LeaveRoom :: "RoomID \<Rightarrow> err option"
  ResolveAlias :: "string \<Rightarrow> err + RoomID"
  KickUser :: "RoomID \<Rightarrow> UserID \<Rightarrow> string \<Rightarrow> err option"
  SendStateEvent :: "RoomID \<Rightarrow> EntityType \<Rightarrow> string \<Rightarrow> ModPolicyContent \<Rightarrow> err + EventID"
  GetEvent :: "RoomID \<Rightarrow> EventID \<Rightarrow> err + Event"

section \<open>Strings\<close>

text \<open>
  \<^verbatim>\<open>strings.Fields\<close>, \<^verbatim>\<open>strings.ToLower\<close>, \<^verbatim>\<open>strings.HasPrefix\<close>, \<^verbatim>\<open>strings.TrimPrefix\<close> and
  \<^verbatim>\<open>strings.Join\<close> on byte strings. White space and letter case are those of ASCII: Go's
  \<^verbatim>\<open>strings.Fields\<close> and \<^verbatim>\<open>strings.ToLower\<close> also know the white space and the letters of
  Unicode, so \<open>Fields\<close> and \<open>ToLower\<close> are those of the code on ASCII text only. The general
  theorems below take the fields of a body and the lower-cased verb as hypotheses; the two
  definitions are evaluated on ASCII examples only.
\<close>

definition isSpace :: "char \<Rightarrow> bool" where
  "isSpace c = (of_char c \<in> {9, 10, 11, 12, 13, 32 :: nat})"

fun FieldsFrom :: "string \<Rightarrow> string \<Rightarrow> string list" where
  "FieldsFrom cur [] = (if cur = [] then [] else [cur])"
| "FieldsFrom cur (c # cs) =
     (if isSpace c then (if cur = [] then FieldsFrom [] cs else cur # FieldsFrom [] cs)
      else FieldsFrom (cur @ [c]) cs)"

definition Fields :: "string \<Rightarrow> string list" where
  "Fields s = FieldsFrom [] s"

definition toLowerChar :: "char \<Rightarrow> char" where
  "toLowerChar c =
     (let n = of_char c :: nat in if 65 \<le> n \<and> n \<le> 90 then char_of (n + 32) else c)"

definition ToLower :: "string \<Rightarrow> string" where
  "ToLower s = map toLowerChar s"

definition HasPrefix :: "string \<Rightarrow> string \<Rightarrow> bool" where
  "HasPrefix s p = (take (length p) s = p)"

definition TrimPrefix :: "string \<Rightarrow> string \<Rightarrow> string" where
  "TrimPrefix s p = (if HasPrefix s p then drop (length p) s else s)"

fun Join :: "string list \<Rightarrow> string \<Rightarrow> string" where
  "Join [] sep = []"
| "Join [x] sep = x"
| "Join (x # y # ys) sep = x @ sep @ Join (y # ys) sep"

section \<open>Classifying an entity\<close>

text \<open>
  The pattern \<^verbatim>\<open>^[a-zA-Z0-9.*?-]+\.[a-zA-Z0-9*?-]+$\<close>: the second class has no dot, so the
  dot of the pattern is the last dot of the string.
\<close>

definition isAlnum :: "char \<Rightarrow> bool" where
  "isAlnum c =
     (let n = of_char c :: nat in (97 \<le> n \<and> n \<le> 122) \<or> (65 \<le> n \<and> n \<le> 90) \<or> (48 \<le> n \<and> n \<le> 57))"

definition isLabelChar :: "char \<Rightarrow> bool" where
  "isLabelChar c = (isAlnum c \<or> c = CHR ''*'' \<or> c = CHR ''?'' \<or> c = CHR ''-'')"

definition isHostChar :: "char \<Rightarrow> bool" where
  "isHostChar c = (isLabelChar c \<or> c = CHR ''.'')"

definition homeserverPatternRegex :: "string \<Rightarrow> bool" where
  "homeserverPatternRegex s =
     (let r = rev s;
          suffix = takeWhile (\<lambda>c. c \<noteq> CHR ''.'') r;
          rest = dropWhile (\<lambda>c. c \<noteq> CHR ''.'') r
      in case rest of
           [] \<Rightarrow> False
         | dot # prefix \<Rightarrow>
             suffix \<noteq> [] \<and> list_all isLabelChar suffix \<and> prefix \<noteq> [] \<and> list_all isHostChar prefix)"

definition validateEntity :: "string \<Rightarrow> EntityType option" where
  "validateEntity entity =
     (case entity of
        [] \<Rightarrow> None
      | c # cs \<Rightarrow>
          if c = CHR ''@'' then Some EntityTypeUser
          else if c = CHR ''!'' then Some EntityTypeRoom
          else if homeserverPatternRegex entity then Some EntityTypeServer
          else None)"

section \<open>Publishing a policy\<close>

text \<open>
  \<^verbatim>\<open>SendPolicy\<close>: an empty state key is replaced by the encoded digest of the raw entity
  followed by the recommendation; the state event is then sent. The result is the call made
  and what the client answered.
\<close>

definition SendPolicy ::
  "PolicyEvaluator \<Rightarrow> RoomID \<Rightarrow> EntityType \<Rightarrow> string \<Rightarrow> string \<Rightarrow> ModPolicyContent
     \<Rightarrow> effect \<times> (err + EventID)" where
  "SendPolicy pe policyList entityType stateKey rawEntity content =
     (let stateKey' =
        (if stateKey = [] then Base64 pe (SHA256 pe (rawEntity @ Recommendation content))
         else stateKey)
      in (SendStateEventCall policyList entityType stateKey' content,
          SendStateEvent pe policyList entityType stateKey' content))"

section \<open>Handling a command\<close>

text \<open>
  A handler returns (\<open>Done\<close>) or panics on an index out of range (\<open>Panic\<close>); either way it
  has made the calls listed, in order. Each arm of the \<^verbatim>\<open>switch\<close> of \<^verbatim>\<open>HandleCommand\<close> is a
  definition of its own. Log lines are not calls and are left out. A collaborator answers as
  a function of its arguments for the time of one command; a match without policies is the
  empty list, which stands for Go's nil slice (the argument \<^verbatim>\<open>nil\<close> of the match functions
  is the empty list of rooms as well).
\<close>

datatype outcome = Done "effect list" | Panic "effect list"

subsection \<open>\<^verbatim>\<open>!join\<close>, \<^verbatim>\<open>!leave\<close> and \<^verbatim>\<open>!redact\<close>\<close>

fun joinRooms :: "PolicyEvaluator \<Rightarrow> string list \<Rightarrow> effect list" where
  "joinRooms pe [] = []"
| "joinRooms pe (a # args) =
     JoinRoomCall a
     # (case JoinRoom pe a of
          Some e \<Rightarrow> Notice ''Failed to join room %q: %v'' [S a, S e]
        | None \<Rightarrow> Notice ''Joined room %q'' [S a])
     # joinRooms pe args"

definition HandleCommand_join :: "PolicyEvaluator \<Rightarrow> Event \<Rightarrow> string list \<Rightarrow> outcome" where
  "HandleCommand_join pe evt args =
     (if length args = 0 then Done [Notice ''Usage: `!join <room ID>...`'' []]
      else Done (joinRooms pe args @ [SuccessReaction (ID evt)]))"

text \<open>The loop of \<^verbatim>\<open>!leave\<close> leaves the first room once for every argument.\<close>

fun leaveRooms :: "PolicyEvaluator \<Rightarrow> RoomID \<Rightarrow> string list \<Rightarrow> effect list" where
  "leaveRooms pe target [] = []"
| "leaveRooms pe target (a # args) =
     LeaveRoomCall target
     # (case LeaveRoom pe target of
          Some e \<Rightarrow> Notice ''Failed to leave room %q: %v'' [S a, S e]
        | None \<Rightarrow> Notice ''Left room %q'' [S a])
     # leaveRooms pe target args"

definition HandleCommand_leave :: "PolicyEvaluator \<Rightarrow> Event \<Rightarrow> string list \<Rightarrow> outcome" where
  "HandleCommand_leave pe evt args =
     (case args of
        [] \<Rightarrow> Done [Notice ''Usage: `!leave <room ID>...`'' []]
      | a0 # _ \<Rightarrow>
          if HasPrefix a0 ''#'' then
            (case ResolveAlias pe a0 of
               Inl e \<Rightarrow> Done [Notice ''Failed to resolve alias %q: %v'' [S a0, S e]]
             | Inr target \<Rightarrow> Done (leaveRooms pe target args))
          else Done (leaveRooms pe a0 args))"

definition HandleCommand_redact :: "PolicyEvaluator \<Rightarrow> Event \<Rightarrow> string list \<Rightarrow> outcome" where
  "HandleCommand_redact pe evt args =
     (case args of
        [] \<Rightarrow> Done [Notice ''Usage: `!redact <user ID> [reason]`'' []]
      | a0 # rest \<Rightarrow> Done [RedactUserCall a0 (Join rest '' ''), SuccessReaction (ID evt)])"

subsection \<open>\<^verbatim>\<open>!kick\<close>\<close>

text \<open>
  The inner loop over the rooms of one user: the kick is called unless \<open>DryRun\<close> is set, a
  failure is reported, anything else counts as a success.
\<close>

fun kickRooms ::
  "PolicyEvaluator \<Rightarrow> UserID \<Rightarrow> string \<Rightarrow> RoomID list \<Rightarrow> nat \<Rightarrow> effect list \<times> nat" where
  "kickRooms pe userID reason [] successCount = ([], successCount)"
| "kickRooms pe userID reason (room # rooms) successCount =
     (let call = (if \<not> DryRun pe then [KickUserCall room userID reason] else []);
          err = (if \<not> DryRun pe then KickUser pe room userID reason else None)
      in case err of
           Some e \<Rightarrow>
             (let (effs, n) = kickRooms pe userID reason rooms successCount
              in (call @ Notice ''Failed to kick `%s` from `%s`: %v'' [S userID, S room, S e] # effs, n))
         | None \<Rightarrow>
             (let (effs, n) = kickRooms pe userID reason rooms (successCount + 1)
              in (call @ effs, n)))"

fun kickUsers :: "PolicyEvaluator \<Rightarrow> string \<Rightarrow> UserID list \<Rightarrow> effect list" where
  "kickUsers pe reason [] = []"
| "kickUsers pe reason (userID # users) =
     (let rooms = getRoomsUserIsIn pe userID
      in if length rooms = 0 then kickUsers pe reason users
         else (let (effs, successCount) = kickRooms pe userID reason rooms 0
               in effs
                  @ Notice ''Kicked `%s` from %d rooms: %s'' [S userID, N successCount, Links rooms]
                  # kickUsers pe reason users))"

definition HandleCommand_kick :: "PolicyEvaluator \<Rightarrow> Event \<Rightarrow> string list \<Rightarrow> outcome" where
  "HandleCommand_kick pe evt args0 =
     (case args0 of
        [] \<Rightarrow> Done [Notice ''Usage: `!kick <user ID> [reason]`'' []]
      | a0 # _ \<Rightarrow>
          (let ignoreUserLimit = (a0 = ''--force'');
               args = (if ignoreUserLimit then tl args0 else args0)
           in case args of
                [] \<Rightarrow> Panic []
              | pattern # rest \<Rightarrow>
                  (let reason = Join rest '' '';
                       users = findMatchingUsers pe pattern
                   in if length users > 10 \<and> \<not> ignoreUserLimit then
                        Done [Notice ''%d users matching `%s` found, use `--force` to kick all of them.''
                                [N (length users), S pattern]]
                      else if length users = 0 then
                        Done (kickUsers pe reason users
                              @ [Notice ''No users matching `%s` found in any rooms'' [S pattern]])
                      else Done (kickUsers pe reason users @ [SuccessReaction (ID evt)]))))"

subsection \<open>\<^verbatim>\<open>!ban\<close> and \<^verbatim>\<open>!takedown\<close>\<close>

text \<open>
  The scan for a state key to reuse: the last policy of the match that is in the list's
  room and has the target as its plain-text entity.
\<close>

fun existingStateKeyOf :: "RoomID \<Rightarrow> string \<Rightarrow> Policy list \<Rightarrow> string \<Rightarrow> string" where
  "existingStateKeyOf listRoom target [] existingStateKey = existingStateKey"
| "existingStateKeyOf listRoom target (policy # match) existingStateKey =
     existingStateKeyOf listRoom target match
       (if RoomID policy = listRoom \<and> Entity policy = target then StateKey policy
        else existingStateKey)"

text \<open>
  The content published: with \<^verbatim>\<open>--hash\<close> the encoded digest of the target replaces the
  plain-text entity (\<^verbatim>\<open>util.SHA256String\<close> is taken to be the evaluator's \<open>SHA256\<close>); a
  takedown carries no reason.
\<close>

definition banPolicy ::
  "PolicyEvaluator \<Rightarrow> string \<Rightarrow> bool \<Rightarrow> string \<Rightarrow> string list \<Rightarrow> ModPolicyContent" where
  "banPolicy pe cmd hash target reasonWords =
     (let policy = \<lparr>Entity = target, Reason = Join reasonWords '' '',
                     Recommendation = PolicyRecommendationBan, UnstableHashes = None\<rparr>;
          policy = (if hash
                    then policy\<lparr>UnstableHashes := Some (Base64 pe (SHA256 pe target)), Entity := []\<rparr>
                    else policy)
      in if cmd = ''!takedown'' \<or> cmd = ''!takedown-user''
         then policy\<lparr>Recommendation := PolicyRecommendationUnstableTakedown, Reason := []\<rparr>
         else policy)"

definition HandleCommand_ban ::
  "PolicyEvaluator \<Rightarrow> Event \<Rightarrow> string \<Rightarrow> string list \<Rightarrow> outcome" where
  "HandleCommand_ban pe evt cmd args0 =
     (if length args0 < 2 then
        Done [Notice ''Usage: `%s [--hash] <list shortcode> <entity> [reason]`'' [S cmd]]
      else
        (let hash = (hd args0 = ''--hash'');
             args = (if hash then tl args0 else args0)
         in case args of
              [] \<Rightarrow> Panic []
            | shortcode # args1 \<Rightarrow>
                (case FindListByShortcode pe shortcode of
                   None \<Rightarrow> Done [Notice ''List %q not found'' [S shortcode]]
                 | Some list \<Rightarrow>
                     (case args1 of
                        [] \<Rightarrow> Panic []
                      | target # reasonWords \<Rightarrow>
                          (case validateEntity target of
                             None \<Rightarrow> Done [Notice ''Invalid entity `%s`'' [S target]]
                           | Some entityType \<Rightarrow>
                               (let match = MatchExact pe (GetWatchedLists pe) entityType target;
                                    rec = Recommendations pe match
                                in if rec \<noteq> None
                                      \<and> Recommendation (the rec) = PolicyRecommendationUnban
                                   then Done [Notice ''`%s` has an unban recommendation: %s''
                                                [S target, S (Reason (the rec))]]
                                   else
                                     (let existingStateKey =
                                            existingStateKeyOf (ListRoomID list) target match [];
                                          policy = banPolicy pe cmd hash target reasonWords;
                                          (call, resp) =
                                            SendPolicy pe (ListRoomID list) entityType
                                              existingStateKey target policy
                                      in case resp of
                                           Inl e \<Rightarrow>
                                             Done [call, Notice ''Failed to send ban policy: %v'' [S e]]
                                         | Inr _ \<Rightarrow> Done [call, SuccessReaction (ID evt)])))))))"

subsection \<open>\<^verbatim>\<open>!remove-ban\<close>, \<^verbatim>\<open>!remove-unban\<close> and \<^verbatim>\<open>!remove-policy\<close>\<close>

definition emptyPolicy :: ModPolicyContent where
  "emptyPolicy = \<lparr>Entity = [], Reason = [], Recommendation = [], UnstableHashes = None\<rparr>"

definition HandleCommand_remove ::
  "PolicyEvaluator \<Rightarrow> Event \<Rightarrow> string \<Rightarrow> string list \<Rightarrow> outcome" where
  "HandleCommand_remove pe evt cmd args =
     (case args of
        shortcode # target # _ \<Rightarrow>
          (case FindListByShortcode pe shortcode of
             None \<Rightarrow> Done [Notice ''List %q not found'' [S shortcode]]
           | Some list \<Rightarrow>
               (case validateEntity target of
                  None \<Rightarrow> Done [Notice ''Invalid entity `%s`'' [S target]]
                | Some entityType \<Rightarrow>
                    (let match = MatchExact pe [ListRoomID list] entityType target
                     in if length match = 0 then
                          Done [Notice ''No rule banning `%s` found in [%s](%s)''
                                  [S target, S (ListName list), URL (ListRoomID list)]]
                        else
                          (let rec = Recommendations pe match;
                               existingStateKey = (case rec of Some r \<Rightarrow> StateKey r | None \<Rightarrow> [])
                           in if rec \<noteq> None \<and> cmd = ''!remove-unban''
                                 \<and> Recommendation (the rec) \<noteq> PolicyRecommendationUnban
                              then Done [Notice ''`%s` does not have an unban recommendation'' [S target]]
                              else if rec \<noteq> None \<and> cmd = ''!remove-ban''
                                 \<and> Recommendation (the rec) \<noteq> PolicyRecommendationBan
                              then Done [Notice ''`%s` does not have a ban recommendation'' [S target]]
                              else
                                (let (call, resp) =
                                       SendPolicy pe (ListRoomID list) entityType
                                         existingStateKey target emptyPolicy
                                 in case resp of
                                      Inl e \<Rightarrow>
                                        Done [call, Notice ''Failed to remove policy: %v'' [S e]]
                                    | Inr _ \<Rightarrow> Done [call, SuccessReaction (ID evt)])))))
      | _ \<Rightarrow> Done [Notice ''Usage: `!remove-policy <list> <entity>`'' []])"

subsection \<open>\<^verbatim>\<open>!add-unban\<close>\<close>

definition HandleCommand_add_unban ::
  "PolicyEvaluator \<Rightarrow> Event \<Rightarrow> string list \<Rightarrow> outcome" where
  "HandleCommand_add_unban pe evt args =
     (case args of
        shortcode # target # reasonWords \<Rightarrow>
          (case FindListByShortcode pe shortcode of
             None \<Rightarrow> Done [Notice ''List %q not found'' [S shortcode]]
           | Some list \<Rightarrow>
               (let entityType =
                      (if \<not> HasPrefix target ''@'' then EntityTypeServer else EntityTypeUser);
                    match =
                      (if \<not> HasPrefix target ''@'' then MatchServer pe (GetWatchedLists pe) target
                       else MatchUser pe (GetWatchedLists pe) target);
                    rec = Recommendations pe match
                in if rec \<noteq> None \<and> Recommendation (the rec) = PolicyRecommendationUnban then
                     Done [Notice ''`%s` already has an unban recommendation: %s''
                             [S target, S (Reason (the rec))]]
                   else
                     (let existingStateKey =
                            (case rec of
                               Some r \<Rightarrow> if RoomID r = ListRoomID list then StateKey r else []
                             | None \<Rightarrow> []);
                          policy = \<lparr>Entity = target, Reason = Join reasonWords '' '',
                                     Recommendation = PolicyRecommendationUnban,
                                     UnstableHashes = None\<rparr>;
                          (call, resp) =
                            SendPolicy pe (ListRoomID list) entityType existingStateKey target policy
                      in case resp of
                           Inl e \<Rightarrow> Done [call, Notice ''Failed to send unban policy: %v'' [S e]]
                         | Inr _ \<Rightarrow> Done [call, SuccessReaction (ID evt)])))
      | _ \<Rightarrow> Done [Notice ''Usage: `!add-unban <list shortcode> <entity> <reason>`'' []])"

subsection \<open>\<^verbatim>\<open>!match\<close>\<close>

text \<open>
  Modelled from the spec: \<^verbatim>\<open>Policy.EntityOrHash\<close> is not in this file of the repository;
  the record holds either the plain-text entity or, for a hashed ban, the encoded digest
  with the plain text cleared.
\<close>

definition EntityOrHash :: "Policy \<Rightarrow> string" where
  "EntityOrHash policy =
     (if Entity policy \<noteq> [] then Entity policy
      else (case UnstableHashes policy of Some h \<Rightarrow> h | None \<Rightarrow> []))"

definition matchNotice :: "PolicyEvaluator \<Rightarrow> Policy list \<Rightarrow> effect" where
  "matchNotice pe match =
     (if match \<noteq> [] then
        Notice ''Matched in %s with recommendations %+v\<newline>\<newline>%s''
          [Duration, Summary (Recommendations pe match),
           Lines (map (\<lambda>policy.
                    [S (case GetWatchedListMeta pe (RoomID policy) of
                          Some meta \<Rightarrow> ListName meta
                        | None \<Rightarrow> RoomID policy),
                     S (PolicySender policy), URL (PolicySender policy),
                     S (Recommendation policy), S (EntityOrHash policy),
                     Time (Timestamp policy), S (Reason policy)]) match)]
      else Notice ''No match in %s'' [Duration])"

definition matchEntity :: "PolicyEvaluator \<Rightarrow> string \<Rightarrow> effect list" where
  "matchEntity pe target =
     (case validateEntity target of
        Some EntityTypeUser \<Rightarrow>
          (let match = MatchUser pe [] target;
               rooms = getRoomsUserIsIn pe target
           in (if length rooms > 0 then
                 [Notice ''User is in %d protected rooms:\<newline>\<newline>%s''
                    [N (length rooms),
                     Lines (map (\<lambda>roomID.
                              [S (case protectedRoomName pe roomID of
                                    Some name \<Rightarrow> if name \<noteq> [] then name else roomID
                                  | None \<Rightarrow> roomID),
                               URL roomID]) rooms)]]
               else [])
              @ [matchNotice pe match])
      | Some EntityTypeRoom \<Rightarrow> [matchNotice pe (MatchRoom pe [] target)]
      | Some EntityTypeServer \<Rightarrow> [matchNotice pe (MatchServer pe [] target)]
      | None \<Rightarrow> [Notice ''Invalid entity `%s`'' [S target]])"

definition HandleCommand_match :: "PolicyEvaluator \<Rightarrow> Event \<Rightarrow> string list \<Rightarrow> outcome" where
  "HandleCommand_match pe evt args =
     (case args of
        [] \<Rightarrow> Panic []
      | target # _ \<Rightarrow>
          (case DecodeBase64Hash pe target of
             Some userIDHash \<Rightarrow>
               (case getUserIDFromHash pe userIDHash of
                  None \<Rightarrow> Done [Notice ''No user found for hash `%s`'' [S target]]
                | Some targetUser \<Rightarrow>
                    Done (Notice ''Matched user `%s` for hash `%s`'' [S targetUser, S targetUser]
                          # matchEntity pe targetUser))
           | None \<Rightarrow> Done (matchEntity pe target)))"

subsection \<open>The gate and the dispatch on the verb\<close>

text \<open>
  \<^verbatim>\<open>HandleCommand\<close>: the two checks on the transport, then the message body is split into
  fields, \<^verbatim>\<open>fields[0]\<close> is lower-cased and selects the handler. Reading \<^verbatim>\<open>fields[0]\<close> of a
  body without fields is an index out of range.
\<close>

definition HandleCommand :: "PolicyEvaluator \<Rightarrow> Event \<Rightarrow> outcome" where
  "HandleCommand pe evt =
     (if \<not> WasEncrypted evt \<and> CryptoHelper pe then Done []
      else if WasEncrypted evt \<and> TrustState evt < TrustStateCrossSignedTOFU then Done []
      else
        (case Fields (Body evt) of
           [] \<Rightarrow> Panic []
         | f # args \<Rightarrow>
             (let cmd = ToLower f
              in if cmd = ''!join'' then HandleCommand_join pe evt args
                 else if cmd = ''!leave'' then HandleCommand_leave pe evt args
                 else if cmd = ''!redact'' then HandleCommand_redact pe evt args
                 else if cmd = ''!kick'' then HandleCommand_kick pe evt args
                 else if cmd = ''!ban'' \<or> cmd = ''!takedown'' then HandleCommand_ban pe evt cmd args
                 else if cmd = ''!remove-ban'' \<or> cmd = ''!remove-unban'' \<or> cmd = ''!remove-policy''
                   then HandleCommand_remove pe evt cmd args
                 else if cmd = ''!add-unban'' then HandleCommand_add_unban pe evt args
                 else if cmd = ''!match'' then HandleCommand_match pe evt args
                 else Done [])))"

section \<open>Handling a report\<close>

text \<open>
  The errors \<^verbatim>\<open>HandleReport\<close> returns: a wrapped error of a failed call, or a
  \<^verbatim>\<open>mautrix.RespError\<close> with its code, its message (format and arguments) and its HTTP
  status. \<^verbatim>\<open>MInvalidParam\<close> and \<^verbatim>\<open>MNotFound\<close> are the library's errors of status 400 and
  404.
\<close>

datatype report_error =
    WrappedError string err
  | RespError string string "arg list" nat

datatype report_outcome =
    Return "effect list" "report_error option"
  | ReportPanic "effect list"

definition HandleReport_ban ::
  "PolicyEvaluator \<Rightarrow> UserID \<Rightarrow> UserID \<Rightarrow> string list \<Rightarrow> report_outcome" where
  "HandleReport_ban pe sender targetUserID args =
     (case args of
        shortcode # reasonWords1 # reasonWords \<Rightarrow>
          (let match = MatchUser pe (GetWatchedLists pe) targetUserID
           in case Recommendations pe match of
                Some rec \<Rightarrow>
                  if Recommendation rec = PolicyRecommendationUnban then
                    Return [] (Some (RespError ''FI.MAU.MEOWLNIR.UNBAN_RECOMMENDED''
                                       ''%s has an unban recommendation: %s''
                                       [S targetUserID, S (Reason rec)] 409))
                  else
                    Return [] (Some (RespError ''FI.MAU.MEOWLNIR.ALREADY_BANNED''
                                       ''%s is already banned for: %s''
                                       [S targetUserID, S (Reason rec)] 409))
              | None \<Rightarrow>
                  (case FindListByShortcode pe shortcode of
                     None \<Rightarrow>
                       Return
                         [Notice ''Failed to handle [%s](%s)'s report of [%s](%s): list %q not found''
                            [S sender, URL sender, S targetUserID, URL targetUserID, S shortcode]]
                         (Some (RespError ''M_NOT_FOUND'' ''List with shortcode %q not found''
                                  [S shortcode] 404))
                   | Some list \<Rightarrow>
                       (let policy = \<lparr>Entity = targetUserID,
                                        Reason = Join (reasonWords1 # reasonWords) '' '',
                                        Recommendation = PolicyRecommendationBan,
                                        UnstableHashes = None\<rparr>;
                            (call, resp) =
                              SendPolicy pe (ListRoomID list) EntityTypeUser [] targetUserID policy
                        in case resp of
                             Inl e \<Rightarrow>
                               Return
                                 [call,
                                  Notice ''Failed to handle [%s](%s)'s report of [%s](%s) for %s ([%s](%s)): %v''
                                    [S sender, URL sender, S targetUserID, URL targetUserID,
                                     S (ListName list), S (ListRoomID list), URL (ListRoomID list), S e]]
                                 (Some (WrappedError ''failed to send policy: %w'' e))
                           | Inr _ \<Rightarrow>
                               Return
                                 [call,
                                  Notice ''Processed [%s](%s)'s report of [%s](%s) and sent a ban policy to %s ([%s](%s)) for %s''
                                    [S sender, URL sender, S targetUserID, URL targetUserID,
                                     S (ListName list), S (ListRoomID list), URL (ListRoomID list),
                                     S (Reason policy)]]
                                 None)))
      | _ \<Rightarrow> Return [] (Some (RespError ''M_INVALID_PARAM'' ''Not enough arguments for ban'' [] 400)))"

text \<open>
  \<^verbatim>\<open>HandleReport\<close>: \<open>sender\<close> is the user of the reporting client. A reported event is
  fetched first and its sender becomes the target. Anything but an admin's report with a
  reason that starts with a slash against a known target is forwarded as a notice.
\<close>

definition HandleReport ::
  "PolicyEvaluator \<Rightarrow> UserID \<Rightarrow> UserID \<Rightarrow> RoomID \<Rightarrow> EventID \<Rightarrow> string \<Rightarrow> report_outcome" where
  "HandleReport pe sender targetUserID0 roomID eventID reason =
     (case (if eventID \<noteq> [] then map_sum id Some (GetEvent pe roomID eventID) else Inr None) of
        Inl e \<Rightarrow>
          Return
            [Notice ''[%s](%s) reported [an event](%s) for %s, but the event could not be fetched: %v''
               [S sender, URL sender, EventURL roomID eventID, S reason, S e]]
            (Some (WrappedError ''failed to fetch event: %w'' e))
      | Inr evt \<Rightarrow>
          (let targetUserID = (case evt of Some ev \<Rightarrow> Sender ev | None \<Rightarrow> targetUserID0)
           in if sender \<notin> Admins pe \<or> \<not> HasPrefix reason ''/'' \<or> targetUserID = [] then
                (case evt of
                   Some ev \<Rightarrow>
                     Return
                       [Notice ''[%s](%s) reported [an event](%s) from [%s](%s) for %s''
                          [S sender, URL sender, EventURL roomID eventID,
                           S (Sender ev), URL (Sender ev), S reason]]
                       None
                 | None \<Rightarrow>
                     if roomID \<noteq> [] then
                       Return
                         [Notice ''[%s](%s) reported [a room](%s) for %s''
                            [S sender, URL sender, URL roomID, S reason]]
                         None
                     else if targetUserID \<noteq> [] then
                       Return
                         [Notice ''[%s](%s) reported [%s](%s) for %s''
                            [S sender, URL sender, URL targetUserID, S reason]]
                         None
                     else Return [] None)
              else
                (case Fields reason of
                   [] \<Rightarrow> ReportPanic []
                 | f # args \<Rightarrow>
                     if ToLower (TrimPrefix f ''/'') = ''ban''
                     then HandleReport_ban pe sender targetUserID args
                     else Return [] None)))"

section \<open>Vocabulary of the properties\<close>

text \<open>
  The condition of the two early returns of \<^verbatim>\<open>HandleCommand\<close>: an unencrypted event while
  the bot has a crypto helper, or an encrypted event below cross-signed TOFU.
\<close>

definition dropped :: "PolicyEvaluator \<Rightarrow> Event \<Rightarrow> bool" where
  "dropped pe evt =
     ((\<not> WasEncrypted evt \<and> CryptoHelper pe)
      \<or> (WasEncrypted evt \<and> TrustState evt < TrustStateCrossSignedTOFU))"

text \<open>The state key a call publishes under, and the kicks among a list of calls.\<close>

fun stateKeyOf :: "effect \<Rightarrow> string option" where
  "stateKeyOf (SendStateEventCall policyList entityType stateKey content) = Some stateKey"
| "stateKeyOf _ = None"

fun isKick :: "effect \<Rightarrow> bool" where
  "isKick (KickUserCall room userID reason) = True"
| "isKick _ = False"

fun isNotice :: "effect \<Rightarrow> bool" where
  "isNotice (Notice format args) = True"
| "isNotice _ = False"

fun kickCallsOf :: "effect list \<Rightarrow> (RoomID \<times> UserID \<times> string) list" where
  "kickCallsOf [] = []"
| "kickCallsOf (KickUserCall room userID reason # effs) = (room, userID, reason) # kickCallsOf effs"
| "kickCallsOf (_ # effs) = kickCallsOf effs"

fun withoutKicks :: "outcome \<Rightarrow> outcome" where
  "withoutKicks (Done effs) = Done (filter (\<lambda>e. \<not> isKick e) effs)"
| "withoutKicks (Panic effs) = Panic (filter (\<lambda>e. \<not> isKick e) effs)"

subsection \<open>A concrete evaluator\<close>

text \<open>
  One watched list with the shortcode \<^verbatim>\<open>L\<close>, one admin, an empty store, no crypto helper;
  every call to the network succeeds. The two hash functions are injective stand-ins, and
  the summary of a match is its first ban or unban. The examples below change single
  fields of it.
\<close>

definition demoList :: WatchedList where
  "demoList = \<lparr>ListRoomID = ''!list:example.org'', ListName = ''Demo list''\<rparr>"

definition demoEvaluator :: PolicyEvaluator where
  "demoEvaluator =
     \<lparr>CryptoHelper = False, DryRun = False,
      Admins = {''@admin:example.org''},
      GetWatchedLists = [''!list:example.org''],
      FindListByShortcode = (\<lambda>s. if s = ''L'' then Some demoList else None),
      GetWatchedListMeta = (\<lambda>r. if r = ''!list:example.org'' then Some demoList else None),
      MatchExact = (\<lambda>lists t e. []),
      MatchUser = (\<lambda>lists u. []),
      MatchRoom = (\<lambda>lists r. []),
      MatchServer = (\<lambda>lists s. []),
      Recommendations =
        List.find (\<lambda>p. Recommendation p = PolicyRecommendationBan
                       \<or> Recommendation p = PolicyRecommendationUnban),
      findMatchingUsers = (\<lambda>p. []),
      getRoomsUserIsIn = (\<lambda>u. []),
      protectedRoomName = (\<lambda>r. None),
      DecodeBase64Hash = (\<lambda>s. None),
      getUserIDFromHash = (\<lambda>h. None),
      SHA256 = (\<lambda>s. ''sha256('' @ s @ '')''),
      Base64 = (\<lambda>s. ''base64('' @ s @ '')''),
      JoinRoom = (\<lambda>r. None),
      LeaveRoom = (\<lambda>r. None),
      ResolveAlias = (\<lambda>a. Inl ''alias not found''),
      KickUser = (\<lambda>r u reason. None),
      SendStateEvent = (\<lambda>r t k c. Inr ''$published''),
      GetEvent = (\<lambda>r e. Inl ''event not found'')\<rparr>"

definition demoCommand :: "string \<Rightarrow> Event" where
  "demoCommand body =
     \<lparr>ID = ''$command'', Sender = ''@admin:example.org'', Body = body,
      WasEncrypted = False, TrustState = 0\<rparr>"

fun effectsOf :: "outcome \<Rightarrow> effect list" where
  "effectsOf (Done effs) = effs"
| "effectsOf (Panic effs) = effs"

text \<open>A store that holds an unban of \<^verbatim>\<open>@friend:example.org\<close> in the watched list.\<close>

definition unbanRecord :: Policy where
  "unbanRecord =
     \<lparr>Entity = ''@friend:example.org'', Reason = ''trusted'',
      Recommendation = PolicyRecommendationUnban, UnstableHashes = None,
      RoomID = ''!list:example.org'', StateKey = ''unban-friend'',
      PolicySender = ''@admin:example.org'', Timestamp = 0\<rparr>"

definition unbanEvaluator :: PolicyEvaluator where
  "unbanEvaluator =
     demoEvaluator\<lparr>MatchExact :=
       (\<lambda>lists t e. if e = ''@friend:example.org'' then [unbanRecord] else [])\<rparr>"

text \<open>
  Evaluators for \<^verbatim>\<open>!kick\<close>: one whose pattern \<^verbatim>\<open>@*:spam.example\<close> matches eleven users, each
  in one room, and a dry-run evaluator with one user in three rooms, whose kicks would
  fail if they were made.
\<close>

definition elevenUsers :: "UserID list" where
  "elevenUsers = [''@a:spam.example'', ''@b:spam.example'', ''@c:spam.example'', ''@d:spam.example'',
                  ''@e:spam.example'', ''@f:spam.example'', ''@g:spam.example'', ''@h:spam.example'',
                  ''@i:spam.example'', ''@j:spam.example'', ''@k:spam.example'']"

definition kickEvaluator :: PolicyEvaluator where
  "kickEvaluator =
     demoEvaluator\<lparr>findMatchingUsers := (\<lambda>p. if p = ''@*:spam.example'' then elevenUsers else []),
                    getRoomsUserIsIn := (\<lambda>u. [''!room:example.org''])\<rparr>"

definition dryEvaluator :: PolicyEvaluator where
  "dryEvaluator =
     demoEvaluator\<lparr>DryRun := True,
                    findMatchingUsers := (\<lambda>p. [''@spam:example.org'']),
                    getRoomsUserIsIn := (\<lambda>u. [''!a:example.org'', ''!b:example.org'', ''!c:example.org'']),
                    KickUser := (\<lambda>room userID reason. Some ''forbidden'')\<rparr>"

text \<open>A store that holds a ban of \<^verbatim>\<open>@spam:example.org\<close> in the watched list.\<close>

definition banRecord :: Policy where
  "banRecord =
     \<lparr>Entity = ''@spam:example.org'', Reason = ''spam'',
      Recommendation = PolicyRecommendationBan, UnstableHashes = None,
      RoomID = ''!list:example.org'', StateKey = ''rule:@spam:example.org'',
      PolicySender = ''@admin:example.org'', Timestamp = 0\<rparr>"

definition banEvaluator :: PolicyEvaluator where
  "banEvaluator =
     demoEvaluator\<lparr>MatchExact := (\<lambda>lists t e. if e = ''@spam:example.org'' then [banRecord] else []),
                    MatchUser := (\<lambda>lists u. if u = ''@spam:example.org'' then [banRecord] else [])\<rparr>"

text \<open>
  Two stores for \<^verbatim>\<open>@evil:example.org\<close>. The first holds the record that
  \<^verbatim>\<open>!takedown L @evil:example.org\<close> publishes into an empty list, under the state key derived
  for a takedown. The second holds the record that \<^verbatim>\<open>!ban --hash L @evil:example.org\<close> then
  publishes over it: the entity is cleared, the digest is set, the state key is the same.
\<close>

definition plainTakedown :: Policy where
  "plainTakedown =
     \<lparr>Entity = ''@evil:example.org'', Reason = [],
      Recommendation = PolicyRecommendationUnstableTakedown, UnstableHashes = None,
      RoomID = ''!list:example.org'',
      StateKey = ''base64(sha256(@evil:example.orgorg.matrix.msc4204.takedown))'',
      PolicySender = ''@bot:example.org'', Timestamp = 0\<rparr>"

definition hashedBan :: Policy where
  "hashedBan =
     \<lparr>Entity = [], Reason = [],
      Recommendation = PolicyRecommendationBan,
      UnstableHashes = Some ''base64(sha256(@evil:example.org))'',
      RoomID = ''!list:example.org'',
      StateKey = ''base64(sha256(@evil:example.orgorg.matrix.msc4204.takedown))'',
      PolicySender = ''@bot:example.org'', Timestamp = 1\<rparr>"

definition takedownEvaluator :: PolicyEvaluator where
  "takedownEvaluator =
     demoEvaluator\<lparr>MatchExact :=
       (\<lambda>lists t e. if e = ''@evil:example.org'' then [plainTakedown] else [])\<rparr>"

definition hashedEvaluator :: PolicyEvaluator where
  "hashedEvaluator =
     demoEvaluator\<lparr>MatchExact :=
       (\<lambda>lists t e. if e = ''@evil:example.org'' then [hashedBan] else [])\<rparr>"

text \<open>A store that holds a ban of \<^verbatim>\<open>@old:example.org\<close> under the empty state key.\<close>

definition unkeyedBan :: Policy where
  "unkeyedBan =
     \<lparr>Entity = ''@old:example.org'', Reason = ''spam'',
      Recommendation = PolicyRecommendationBan, UnstableHashes = None,
      RoomID = ''!list:example.org'', StateKey = [],
      PolicySender = ''@admin:example.org'', Timestamp = 0\<rparr>"

definition unkeyedEvaluator :: PolicyEvaluator where
  "unkeyedEvaluator =
     demoEvaluator\<lparr>MatchExact :=
       (\<lambda>lists t e. if e = ''@old:example.org'' then [unkeyedBan] else [])\<rparr>"

section \<open>The dispatch, once the gate is passed\<close>

lemma HandleCommand_kick_eq:
  "\<not> dropped pe evt \<Longrightarrow> Fields (Body evt) = f # args \<Longrightarrow> ToLower f = ''!kick''
   \<Longrightarrow> HandleCommand pe evt = HandleCommand_kick pe evt args"
  by (auto simp add: HandleCommand_def dropped_def)

lemma HandleCommand_ban_eq:
  "\<not> dropped pe evt \<Longrightarrow> Fields (Body evt) = f # args
   \<Longrightarrow> ToLower f = ''!ban'' \<or> ToLower f = ''!takedown''
   \<Longrightarrow> HandleCommand pe evt = HandleCommand_ban pe evt (ToLower f) args"
  by (auto simp add: HandleCommand_def dropped_def)

lemma HandleCommand_remove_eq:
  "\<not> dropped pe evt \<Longrightarrow> Fields (Body evt) = f # args
   \<Longrightarrow> ToLower f = ''!remove-ban'' \<or> ToLower f = ''!remove-unban'' \<or> ToLower f = ''!remove-policy''
   \<Longrightarrow> HandleCommand pe evt = HandleCommand_remove pe evt (ToLower f) args"
  by (auto simp add: HandleCommand_def dropped_def)

section \<open>The derived state key\<close>

text \<open>
  Claim C5. With no state key to reuse, \<^verbatim>\<open>SendPolicy\<close> publishes under the base64 encoding
  of the SHA-256 digest of the raw entity followed by the recommendation. The key depends on
  nothing else: a second call for the same entity and recommendation, whatever the list, the
  entity type, the other fields of the content, the store and the answers of the network,
  publishes under the same key.
\<close>

theorem SendPolicy_derived_state_key:
  "fst (SendPolicy pe policyList entityType [] rawEntity content)
     = SendStateEventCall policyList entityType
         (Base64 pe (SHA256 pe (rawEntity @ Recommendation content))) content
   \<and> stateKeyOf (fst (SendPolicy (pe\<lparr>SendStateEvent := send', MatchExact := store'\<rparr>)
                        policyList' entityType' [] rawEntity
                        (content\<lparr>Entity := entity', Reason := reason', UnstableHashes := hashes'\<rparr>)))
       = stateKeyOf (fst (SendPolicy pe policyList entityType [] rawEntity content))"
  by (simp add: SendPolicy_def Let_def)

section \<open>The gate on the transport\<close>

text \<open>
  Claim C10, as the code has it. An unencrypted command is dropped when the bot has a crypto
  helper, and an encrypted one when its trust state is below cross-signed TOFU: the handler
  returns without a single call, whatever the body is, so before the body is split into
  fields and before any verb is looked at.
\<close>

theorem gate_drops:
  "(\<not> WasEncrypted evt \<and> CryptoHelper pe)
     \<or> (WasEncrypted evt \<and> TrustState evt < TrustStateCrossSignedTOFU)
   \<Longrightarrow> HandleCommand pe evt = Done []"
  by (auto simp add: HandleCommand_def)

text \<open>
  The theorem at a bot with a crypto helper and an unencrypted command whose body has no
  field at all.
\<close>

theorem gate_drops_witness:
  "\<not> WasEncrypted (demoCommand []) \<and> CryptoHelper (demoEvaluator\<lparr>CryptoHelper := True\<rparr>)
   \<and> HandleCommand (demoEvaluator\<lparr>CryptoHelper := True\<rparr>) (demoCommand []) = Done []"
  using gate_drops [of "demoCommand []" "demoEvaluator\<lparr>CryptoHelper := True\<rparr>"]
  by (simp add: demoCommand_def demoEvaluator_def)

text \<open>
  Without a crypto helper the first check does not apply: an unencrypted \<^verbatim>\<open>!redact\<close> is
  handled.
\<close>

lemma demo_redact_fields:
  "Fields ''!redact @spam:example.org'' = [''!redact'', ''@spam:example.org'']"
  by (simp add: Fields_def isSpace_def)

lemma ToLower_redact: "ToLower ''!redact'' = ''!redact''"
  by code_simp

theorem unencrypted_command_handled:
  "\<not> WasEncrypted (demoCommand ''!redact @spam:example.org'')
   \<and> HandleCommand demoEvaluator (demoCommand ''!redact @spam:example.org'')
       = Done [RedactUserCall ''@spam:example.org'' [], SuccessReaction ''$command'']"
  by (simp add: HandleCommand_def demoCommand_def demoEvaluator_def demo_redact_fields
        ToLower_redact HandleCommand_redact_def)

section \<open>Index out of range\<close>

lemma Body_demoCommand [simp]: "Body (demoCommand body) = body"
  by (simp add: demoCommand_def)

lemma ID_demoCommand [simp]: "ID (demoCommand body) = ''$command''"
  by (simp add: demoCommand_def)

lemma not_dropped_demoEvaluator: "\<not> dropped demoEvaluator (demoCommand body)"
  by (simp add: dropped_def demoEvaluator_def demoCommand_def)

lemma Fields_empty: "Fields [] = []"
  by (simp add: Fields_def)

lemma Fields_match: "Fields ''!match'' = [''!match'']"
  by (simp add: Fields_def isSpace_def)

lemma Fields_kick_force: "Fields ''!kick --force'' = [''!kick'', ''--force'']"
  by (simp add: Fields_def isSpace_def)

lemma Fields_ban_hash: "Fields ''!ban --hash L'' = [''!ban'', ''--hash'', ''L'']"
  by (simp add: Fields_def isSpace_def)

lemma ToLower_match: "ToLower ''!match'' = ''!match''"
  by code_simp

lemma ToLower_kick: "ToLower ''!kick'' = ''!kick''"
  by code_simp

lemma ToLower_ban: "ToLower ''!ban'' = ''!ban''"
  by code_simp

text \<open>
  Claim C7 fails on the command handler. A command that passed the gate panics, before any
  call is made, when its body has no field (\<^verbatim>\<open>fields[0]\<close>), when it is \<^verbatim>\<open>!match\<close> alone
  (\<^verbatim>\<open>args[0]\<close> is read without the length check the other verbs make), when it is
  \<^verbatim>\<open>!kick --force\<close> alone (the flag is dropped after the length check, then \<^verbatim>\<open>args[0]\<close> is
  read), and when it is \<^verbatim>\<open>!ban --hash\<close> with a known list and nothing else (the flag is
  dropped after the check for two arguments, then \<^verbatim>\<open>args[1]\<close> is read).
\<close>

theorem HandleCommand_index_out_of_range:
  assumes "\<not> dropped pe evt"
  shows "(Fields (Body evt) = [] \<longrightarrow> HandleCommand pe evt = Panic [])
       \<and> (Fields (Body evt) = [f] \<and> ToLower f = ''!match'' \<longrightarrow> HandleCommand pe evt = Panic [])
       \<and> (Fields (Body evt) = [f, ''--force''] \<and> ToLower f = ''!kick''
            \<longrightarrow> HandleCommand pe evt = Panic [])
       \<and> (Fields (Body evt) = [f, ''--hash'', shortcode] \<and> ToLower f = ''!ban''
            \<and> FindListByShortcode pe shortcode = Some list
            \<longrightarrow> HandleCommand pe evt = Panic [])"
  using assms
  by (auto simp add: HandleCommand_def dropped_def HandleCommand_match_def HandleCommand_kick_def
        HandleCommand_ban_def)

theorem HandleCommand_index_out_of_range_witness:
  "HandleCommand demoEvaluator (demoCommand []) = Panic []
   \<and> HandleCommand demoEvaluator (demoCommand ''!match'') = Panic []
   \<and> HandleCommand demoEvaluator (demoCommand ''!kick --force'') = Panic []
   \<and> HandleCommand demoEvaluator (demoCommand ''!ban --hash L'') = Panic []"
proof -
  have list: "FindListByShortcode demoEvaluator ''L'' = Some demoList"
    by (simp add: demoEvaluator_def)
  show ?thesis
    using HandleCommand_index_out_of_range
            [OF not_dropped_demoEvaluator, of "[]" "''!match''" "''L''" demoList]
          HandleCommand_index_out_of_range
            [OF not_dropped_demoEvaluator, of "''!match''" "''!match''" "''L''" demoList]
          HandleCommand_index_out_of_range
            [OF not_dropped_demoEvaluator, of "''!kick --force''" "''!kick''" "''L''" demoList]
          HandleCommand_index_out_of_range
            [OF not_dropped_demoEvaluator, of "''!ban --hash L''" "''!ban''" "''L''" demoList]
    by (simp add: Fields_empty Fields_match Fields_kick_force Fields_ban_hash
          ToLower_match ToLower_kick ToLower_ban list)
qed

section \<open>A standing unban blocks a ban\<close>

text \<open>
  Claim C2. A \<^verbatim>\<open>!ban\<close> or \<^verbatim>\<open>!takedown\<close> (with or without \<^verbatim>\<open>--hash\<close>) on a known list and a
  valid entity queries the watched lists for the exact entity. When the summary of the
  match is a record that recommends an unban, all the handler does is send the notice with
  that record's reason: no state event is sent and no success reaction follows.
\<close>

theorem ban_blocked_by_unban:
  assumes "\<not> dropped pe evt"
    and "Fields (Body evt) = f # pre @ shortcode # target # reasonWords"
    and "ToLower f = ''!ban'' \<or> ToLower f = ''!takedown''"
    and "(pre = [] \<and> shortcode \<noteq> ''--hash'') \<or> pre = [''--hash'']"
    and "FindListByShortcode pe shortcode = Some list"
    and "validateEntity target = Some entityType"
    and "Recommendations pe (MatchExact pe (GetWatchedLists pe) entityType target) = Some rec"
    and "Recommendation rec = PolicyRecommendationUnban"
  shows "HandleCommand pe evt
         = Done [Notice ''`%s` has an unban recommendation: %s'' [S target, S (Reason rec)]]"
proof -
  have "HandleCommand pe evt
        = HandleCommand_ban pe evt (ToLower f) (pre @ shortcode # target # reasonWords)"
    using assms(1-3) by (rule HandleCommand_ban_eq)
  also have "\<dots> = Done [Notice ''`%s` has an unban recommendation: %s'' [S target, S (Reason rec)]]"
    using assms(4-8) by (auto simp add: HandleCommand_ban_def)
  finally show ?thesis .
qed

lemma Fields_ban_friend:
  "Fields ''!ban L @friend:example.org spam'' = [''!ban'', ''L'', ''@friend:example.org'', ''spam'']"
  by (simp add: Fields_def isSpace_def)

lemma not_dropped_unbanEvaluator: "\<not> dropped unbanEvaluator (demoCommand body)"
  by (simp add: dropped_def unbanEvaluator_def demoEvaluator_def demoCommand_def)

theorem ban_blocked_by_unban_witness:
  "Recommendation unbanRecord = PolicyRecommendationUnban
   \<and> HandleCommand unbanEvaluator (demoCommand ''!ban L @friend:example.org spam'')
       = Done [Notice ''`%s` has an unban recommendation: %s'' [S ''@friend:example.org'', S ''trusted'']]"
proof -
  have fields: "Fields (Body (demoCommand ''!ban L @friend:example.org spam''))
                = ''!ban'' # [] @ ''L'' # ''@friend:example.org'' # [''spam'']"
    by (simp add: Fields_ban_friend)
  have list: "FindListByShortcode unbanEvaluator ''L'' = Some demoList"
    by (simp add: unbanEvaluator_def demoEvaluator_def)
  have entity: "validateEntity ''@friend:example.org'' = Some EntityTypeUser"
    by (simp add: validateEntity_def)
  have unban: "Recommendation unbanRecord = PolicyRecommendationUnban"
    by (simp add: unbanRecord_def)
  have summary:
    "Recommendations unbanEvaluator
       (MatchExact unbanEvaluator (GetWatchedLists unbanEvaluator) EntityTypeUser ''@friend:example.org'')
     = Some unbanRecord"
    by (simp add: unbanEvaluator_def demoEvaluator_def unban)
  have "HandleCommand unbanEvaluator (demoCommand ''!ban L @friend:example.org spam'')
        = Done [Notice ''`%s` has an unban recommendation: %s''
                  [S ''@friend:example.org'', S (Reason unbanRecord)]]"
    by (rule ban_blocked_by_unban [OF not_dropped_unbanEvaluator fields _ _ list entity summary unban])
       (simp_all add: ToLower_ban)
  then show ?thesis
    by (simp add: unban) (simp add: unbanRecord_def)
qed

section \<open>The limit of ten users of \<^verbatim>\<open>!kick\<close>\<close>

lemma kickCallsOf_append: "kickCallsOf (xs @ ys) = kickCallsOf xs @ kickCallsOf ys"
  by (induction xs rule: kickCallsOf.induct) simp_all

lemma kickRooms_calls:
  "kickCallsOf (fst (kickRooms pe userID reason rooms n))
   = (if DryRun pe then [] else map (\<lambda>room. (room, userID, reason)) rooms)"
  by (induction rooms arbitrary: n) (simp_all add: Let_def case_prod_beta split: option.splits)

lemma kickUsers_calls:
  "kickCallsOf (kickUsers pe reason users)
   = (if DryRun pe then []
      else concat (map (\<lambda>userID. map (\<lambda>room. (room, userID, reason)) (getRoomsUserIsIn pe userID))
                     users))"
proof (induction users)
  case Nil
  then show ?case by simp
next
  case (Cons userID users)
  show ?case
  proof (cases "getRoomsUserIsIn pe userID = []")
    case True
    with Cons show ?thesis by simp
  next
    case False
    obtain effs n where k: "kickRooms pe userID reason (getRoomsUserIsIn pe userID) 0 = (effs, n)"
      by (cases "kickRooms pe userID reason (getRoomsUserIsIn pe userID) 0")
    have "kickCallsOf effs
          = (if DryRun pe then [] else map (\<lambda>room. (room, userID, reason)) (getRoomsUserIsIn pe userID))"
      using kickRooms_calls [of pe userID reason "getRoomsUserIsIn pe userID" 0] k by simp
    with Cons False k show ?thesis
      by (simp add: kickCallsOf_append)
  qed
qed

text \<open>
  Claim C6. In a \<^verbatim>\<open>!kick\<close> without \<^verbatim>\<open>--force\<close> whose pattern matches more than ten users,
  all the handler does is send the notice with the count: no user is kicked from any room.
  With \<^verbatim>\<open>--force\<close> the handler goes through all the users, however many: unless it is a
  dry run, it calls the kick for every matching user in every room that user is in, with
  the reason given, in order.
\<close>

theorem kick_safety_threshold:
  assumes "\<not> dropped pe evt"
    and "Fields (Body evt) = f # args"
    and "ToLower f = ''!kick''"
  shows "(\<forall>pattern rest.
            args = pattern # rest \<and> pattern \<noteq> ''--force''
              \<and> length (findMatchingUsers pe pattern) > 10
            \<longrightarrow> HandleCommand pe evt
                = Done [Notice ''%d users matching `%s` found, use `--force` to kick all of them.''
                          [N (length (findMatchingUsers pe pattern)), S pattern]])
       \<and> (\<forall>pattern rest.
            args = ''--force'' # pattern # rest
            \<longrightarrow> (\<exists>effs. HandleCommand pe evt = Done effs
                   \<and> kickCallsOf effs
                     = (if DryRun pe then []
                        else concat (map (\<lambda>userID. map (\<lambda>room. (room, userID, Join rest '' ''))
                                                      (getRoomsUserIsIn pe userID))
                                       (findMatchingUsers pe pattern)))))"
proof -
  have eq: "HandleCommand pe evt = HandleCommand_kick pe evt args"
    using assms by (rule HandleCommand_kick_eq)
  show ?thesis
    unfolding eq
    by (auto simp add: HandleCommand_kick_def Let_def kickCallsOf_append kickUsers_calls)
qed


lemma Fields_kick_spam:
  "Fields ''!kick @*:spam.example flood'' = [''!kick'', ''@*:spam.example'', ''flood'']"
  by (simp add: Fields_def isSpace_def)

lemma Fields_kick_force_spam:
  "Fields ''!kick --force @*:spam.example flood''
   = [''!kick'', ''--force'', ''@*:spam.example'', ''flood'']"
  by (simp add: Fields_def isSpace_def)

lemma not_dropped_kickEvaluator0: "\<not> dropped kickEvaluator (demoCommand body)"
  by (simp add: dropped_def kickEvaluator_def demoEvaluator_def demoCommand_def)

theorem kick_safety_threshold_witness:
  "length (findMatchingUsers kickEvaluator ''@*:spam.example'') = 11
   \<and> HandleCommand kickEvaluator (demoCommand ''!kick @*:spam.example flood'')
       = Done [Notice ''%d users matching `%s` found, use `--force` to kick all of them.''
                 [N 11, S ''@*:spam.example'']]
   \<and> kickCallsOf (effectsOf (HandleCommand kickEvaluator
                                 (demoCommand ''!kick --force @*:spam.example flood'')))
       = map (\<lambda>userID. (''!room:example.org'', userID, ''flood'')) elevenUsers"
proof -
  have users: "findMatchingUsers kickEvaluator ''@*:spam.example'' = elevenUsers"
    by (simp add: kickEvaluator_def)
  have eleven: "length elevenUsers = 11"
    by (simp add: elevenUsers_def)
  have rooms: "getRoomsUserIsIn kickEvaluator = (\<lambda>u. [''!room:example.org''])"
    by (simp add: kickEvaluator_def)
  have wet: "\<not> DryRun kickEvaluator"
    by (simp add: kickEvaluator_def demoEvaluator_def)
  have plain: "HandleCommand kickEvaluator (demoCommand ''!kick @*:spam.example flood'')
       = Done [Notice ''%d users matching `%s` found, use `--force` to kick all of them.''
                 [N 11, S ''@*:spam.example'']]"
    using kick_safety_threshold
            [of kickEvaluator "demoCommand ''!kick @*:spam.example flood''" "''!kick''"
               "[''@*:spam.example'', ''flood'']", OF not_dropped_kickEvaluator0]
    by (simp add: Fields_kick_spam ToLower_kick users eleven)
  have "\<exists>effs. HandleCommand kickEvaluator (demoCommand ''!kick --force @*:spam.example flood'')
                 = Done effs
          \<and> kickCallsOf effs = map (\<lambda>userID. (''!room:example.org'', userID, ''flood'')) elevenUsers"
    using kick_safety_threshold
            [of kickEvaluator "demoCommand ''!kick --force @*:spam.example flood''" "''!kick''"
               "[''--force'', ''@*:spam.example'', ''flood'']", OF not_dropped_kickEvaluator0]
    by (simp add: Fields_kick_force_spam ToLower_kick users rooms wet elevenUsers_def)
  then have forced:
    "kickCallsOf (effectsOf (HandleCommand kickEvaluator
                                (demoCommand ''!kick --force @*:spam.example flood'')))
     = map (\<lambda>userID. (''!room:example.org'', userID, ''flood'')) elevenUsers"
    by auto
  show ?thesis
    using plain forced by (simp add: users eleven)
qed

section \<open>A dry run of \<^verbatim>\<open>!kick\<close>\<close>

lemma kickRooms_dry:
  "DryRun pe \<Longrightarrow> kickRooms pe userID reason rooms n = ([], n + length rooms)"
  by (induction rooms arbitrary: n) simp_all

lemma kickRooms_all_succeed:
  "kickRooms (pe\<lparr>DryRun := False, KickUser := (\<lambda>room userID reason. None)\<rparr>) userID reason rooms n
   = (map (\<lambda>room. KickUserCall room userID reason) rooms, n + length rooms)"
  by (induction rooms arbitrary: n) simp_all

lemma filter_kicks_map [simp]:
  "filter (\<lambda>e. \<not> isKick e) (map (\<lambda>room. KickUserCall room userID reason) rooms) = []"
  by (induction rooms) simp_all

lemma kickUsers_dry:
  "DryRun pe \<Longrightarrow>
   kickUsers pe reason users
   = concat (map (\<lambda>userID.
        if getRoomsUserIsIn pe userID = [] then []
        else [Notice ''Kicked `%s` from %d rooms: %s''
                [S userID, N (length (getRoomsUserIsIn pe userID)), Links (getRoomsUserIsIn pe userID)]])
      users)"
  by (induction users) (simp_all add: Let_def kickRooms_dry)

lemma kickUsers_all_succeed:
  "DryRun pe \<Longrightarrow>
   filter (\<lambda>e. \<not> isKick e)
     (kickUsers (pe\<lparr>DryRun := False, KickUser := (\<lambda>room userID reason. None)\<rparr>) reason users)
   = kickUsers pe reason users"
  by (induction users) (simp_all add: Let_def kickRooms_dry kickRooms_all_succeed)

lemma kickCallsOf_notices:
  "kickCallsOf (concat (map (\<lambda>userID. if P userID then [] else [Notice (fmt userID) (as userID)]) users)) = []"
  by (induction users) simp_all

text \<open>
  Claim C9. In a dry run, a \<^verbatim>\<open>!kick\<close> that is not stopped by the limit of ten users makes
  no kick call at all; every user who is in \<open>n > 0\<close> rooms is reported as kicked from \<open>n\<close>
  rooms, and the success reaction follows. These are exactly the notices and the reaction
  of the same command outside of a dry run when every kick succeeds.
\<close>

theorem dry_run_kick:
  assumes "DryRun pe"
    and "\<not> dropped pe evt"
    and "Fields (Body evt) = f # pre @ pattern # rest"
    and "ToLower f = ''!kick''"
    and "(pre = [] \<and> pattern \<noteq> ''--force'') \<or> pre = [''--force'']"
    and "length (findMatchingUsers pe pattern) \<le> 10 \<or> pre = [''--force'']"
  shows "HandleCommand pe evt
         = Done (concat (map (\<lambda>userID.
                   if getRoomsUserIsIn pe userID = [] then []
                   else [Notice ''Kicked `%s` from %d rooms: %s''
                           [S userID, N (length (getRoomsUserIsIn pe userID)),
                            Links (getRoomsUserIsIn pe userID)]])
                 (findMatchingUsers pe pattern))
                 @ [if findMatchingUsers pe pattern = []
                    then Notice ''No users matching `%s` found in any rooms'' [S pattern]
                    else SuccessReaction (ID evt)])
       \<and> kickCallsOf (effectsOf (HandleCommand pe evt)) = []
       \<and> HandleCommand pe evt
         = withoutKicks (HandleCommand
                           (pe\<lparr>DryRun := False, KickUser := (\<lambda>room userID reason. None)\<rparr>) evt)"
proof -
  let ?pe' = "pe\<lparr>DryRun := False, KickUser := (\<lambda>room userID reason. None)\<rparr>"
  have eq: "HandleCommand pe evt = HandleCommand_kick pe evt (pre @ pattern # rest)"
    using assms(2-4) by (rule HandleCommand_kick_eq)
  have "\<not> dropped ?pe' evt"
    using assms(2) by (simp add: dropped_def)
  then have eq': "HandleCommand ?pe' evt = HandleCommand_kick ?pe' evt (pre @ pattern # rest)"
    using assms(3,4) by (rule HandleCommand_kick_eq)
  have dry: "HandleCommand_kick pe evt (pre @ pattern # rest)
         = Done (concat (map (\<lambda>userID.
                   if getRoomsUserIsIn pe userID = [] then []
                   else [Notice ''Kicked `%s` from %d rooms: %s''
                           [S userID, N (length (getRoomsUserIsIn pe userID)),
                            Links (getRoomsUserIsIn pe userID)]])
                 (findMatchingUsers pe pattern))
                 @ [if findMatchingUsers pe pattern = []
                    then Notice ''No users matching `%s` found in any rooms'' [S pattern]
                    else SuccessReaction (ID evt)])"
    using assms(5,6) by (auto simp add: HandleCommand_kick_def Let_def kickUsers_dry [OF assms(1)])
  have real: "withoutKicks (HandleCommand_kick ?pe' evt (pre @ pattern # rest))
              = HandleCommand_kick pe evt (pre @ pattern # rest)"
    using assms(5,6)
    by (auto simp add: HandleCommand_kick_def Let_def kickUsers_all_succeed [OF assms(1)])
  have none: "kickCallsOf (effectsOf (HandleCommand_kick pe evt (pre @ pattern # rest))) = []"
    unfolding dry by (auto simp add: kickCallsOf_append kickCallsOf_notices)
  show ?thesis
    unfolding eq eq' using dry real none by simp
qed


lemma Fields_kick_one:
  "Fields ''!kick @spam:example.org flood'' = [''!kick'', ''@spam:example.org'', ''flood'']"
  by (simp add: Fields_def isSpace_def)

theorem dry_run_kick_witness:
  "DryRun dryEvaluator
   \<and> KickUser dryEvaluator ''!a:example.org'' ''@spam:example.org'' ''flood'' = Some ''forbidden''
   \<and> HandleCommand dryEvaluator (demoCommand ''!kick @spam:example.org flood'')
       = Done [Notice ''Kicked `%s` from %d rooms: %s''
                 [S ''@spam:example.org'', N 3,
                  Links [''!a:example.org'', ''!b:example.org'', ''!c:example.org'']],
               SuccessReaction ''$command'']"
proof -
  have dry: "DryRun dryEvaluator"
    by (simp add: dryEvaluator_def)
  have pass: "\<not> dropped dryEvaluator (demoCommand ''!kick @spam:example.org flood'')"
    by (simp add: dropped_def dryEvaluator_def demoEvaluator_def demoCommand_def)
  have fields: "Fields (Body (demoCommand ''!kick @spam:example.org flood''))
                = ''!kick'' # [] @ ''@spam:example.org'' # [''flood'']"
    by (simp add: Fields_kick_one)
  have users: "findMatchingUsers dryEvaluator ''@spam:example.org'' = [''@spam:example.org'']"
    by (simp add: dryEvaluator_def)
  have rooms: "getRoomsUserIsIn dryEvaluator ''@spam:example.org''
               = [''!a:example.org'', ''!b:example.org'', ''!c:example.org'']"
    by (simp add: dryEvaluator_def)
  have "HandleCommand dryEvaluator (demoCommand ''!kick @spam:example.org flood'')
        = Done [Notice ''Kicked `%s` from %d rooms: %s''
                 [S ''@spam:example.org'', N 3,
                  Links [''!a:example.org'', ''!b:example.org'', ''!c:example.org'']],
               SuccessReaction ''$command'']"
    using dry_run_kick [OF dry pass fields ToLower_kick]
    by (simp add: users rooms)
  then show ?thesis
    by (simp add: dry) (simp add: dryEvaluator_def)
qed

section \<open>The removal commands\<close>

text \<open>
  Claim C8, as the code has it. A \<^verbatim>\<open>!remove-ban\<close>, \<^verbatim>\<open>!remove-unban\<close> or \<^verbatim>\<open>!remove-policy\<close> on
  a known list and a valid entity queries that list alone for the exact entity. An empty
  match is reported and nothing is sent. The record the handler looks at is the summary
  of a match that is not empty. When the summary holds a record, \<^verbatim>\<open>!remove-unban\<close> is
  rejected with a notice unless the record recommends an unban, \<^verbatim>\<open>!remove-ban\<close> unless it
  recommends a ban, and \<^verbatim>\<open>!remove-policy\<close> takes any recommendation; a command that is not
  rejected sends the empty policy content under the state key of the record, when that
  key is not empty, followed by the success reaction when the send succeeds.
\<close>

theorem removal_command:
  assumes "\<not> dropped pe evt"
    and "Fields (Body evt) = f # shortcode # target # rest"
    and "ToLower f = cmd"
    and "cmd = ''!remove-ban'' \<or> cmd = ''!remove-unban'' \<or> cmd = ''!remove-policy''"
    and "FindListByShortcode pe shortcode = Some list"
    and "validateEntity target = Some entityType"
  shows "(MatchExact pe [ListRoomID list] entityType target = []
            \<longrightarrow> HandleCommand pe evt
                = Done [Notice ''No rule banning `%s` found in [%s](%s)''
                          [S target, S (ListName list), URL (ListRoomID list)]])
       \<and> (\<forall>rec. MatchExact pe [ListRoomID list] entityType target \<noteq> []
                \<and> Recommendations pe (MatchExact pe [ListRoomID list] entityType target) = Some rec
            \<longrightarrow> (cmd = ''!remove-unban'' \<and> Recommendation rec \<noteq> PolicyRecommendationUnban
                   \<longrightarrow> HandleCommand pe evt
                       = Done [Notice ''`%s` does not have an unban recommendation'' [S target]])
               \<and> (cmd = ''!remove-ban'' \<and> Recommendation rec \<noteq> PolicyRecommendationBan
                   \<longrightarrow> HandleCommand pe evt
                       = Done [Notice ''`%s` does not have a ban recommendation'' [S target]])
               \<and> (StateKey rec \<noteq> []
                    \<and> (cmd = ''!remove-policy''
                        \<or> (cmd = ''!remove-unban'' \<and> Recommendation rec = PolicyRecommendationUnban)
                        \<or> (cmd = ''!remove-ban'' \<and> Recommendation rec = PolicyRecommendationBan))
                   \<longrightarrow> HandleCommand pe evt
                       = Done [SendStateEventCall (ListRoomID list) entityType (StateKey rec) emptyPolicy,
                               (case SendStateEvent pe (ListRoomID list) entityType (StateKey rec)
                                       emptyPolicy of
                                  Inl e \<Rightarrow> Notice ''Failed to remove policy: %v'' [S e]
                                | Inr eventID \<Rightarrow> SuccessReaction (ID evt))]))"
proof -
  have eq: "HandleCommand pe evt = HandleCommand_remove pe evt cmd (shortcode # target # rest)"
    using HandleCommand_remove_eq [OF assms(1,2)] assms(3,4) by simp
  show ?thesis
    unfolding eq using assms(4-6)
    by (auto simp add: HandleCommand_remove_def SendPolicy_def Let_def split: sum.splits)
qed

lemma ToLower_remove_ban: "ToLower ''!remove-ban'' = ''!remove-ban''"
  by code_simp

lemma ToLower_remove_unban: "ToLower ''!remove-unban'' = ''!remove-unban''"
  by code_simp

lemma ToLower_remove_policy: "ToLower ''!remove-policy'' = ''!remove-policy''"
  by code_simp

lemma Fields_remove_ban_nobody:
  "Fields ''!remove-ban L @nobody:example.org'' = [''!remove-ban'', ''L'', ''@nobody:example.org'']"
  by (simp add: Fields_def isSpace_def)

lemma Fields_remove_ban_friend:
  "Fields ''!remove-ban L @friend:example.org'' = [''!remove-ban'', ''L'', ''@friend:example.org'']"
  by (simp add: Fields_def isSpace_def)

lemma Fields_remove_unban_friend:
  "Fields ''!remove-unban L @friend:example.org'' = [''!remove-unban'', ''L'', ''@friend:example.org'']"
  by (simp add: Fields_def isSpace_def)

lemma Fields_remove_policy_friend:
  "Fields ''!remove-policy L @friend:example.org'' = [''!remove-policy'', ''L'', ''@friend:example.org'']"
  by (simp add: Fields_def isSpace_def)

lemma unbanEvaluator_list: "FindListByShortcode unbanEvaluator ''L'' = Some demoList"
  by (simp add: unbanEvaluator_def demoEvaluator_def)

lemma validateEntity_user: "validateEntity (CHR ''@'' # name) = Some EntityTypeUser"
  by (simp add: validateEntity_def)

lemma unbanEvaluator_friend:
  "MatchExact unbanEvaluator ls EntityTypeUser ''@friend:example.org'' = [unbanRecord]"
  by (simp add: unbanEvaluator_def demoEvaluator_def)

lemma unbanEvaluator_nobody:
  "MatchExact unbanEvaluator ls EntityTypeUser ''@nobody:example.org'' = []"
  by (simp add: unbanEvaluator_def demoEvaluator_def)

lemma unbanEvaluator_summary: "Recommendations unbanEvaluator [unbanRecord] = Some unbanRecord"
  by (simp add: unbanEvaluator_def demoEvaluator_def unbanRecord_def)

lemma unbanEvaluator_send:
  "SendStateEvent unbanEvaluator r t k c = Inr ''$published''"
  by (simp add: unbanEvaluator_def demoEvaluator_def)

lemma unbanRecord_fields:
  "Recommendation unbanRecord = PolicyRecommendationUnban" "StateKey unbanRecord = ''unban-friend''"
  by (simp_all add: unbanRecord_def)

lemma Unban_not_Ban: "PolicyRecommendationUnban \<noteq> PolicyRecommendationBan"
  by (simp add: PolicyRecommendationUnban_def PolicyRecommendationBan_def)

theorem removal_command_witness:
  "HandleCommand unbanEvaluator (demoCommand ''!remove-ban L @nobody:example.org'')
     = Done [Notice ''No rule banning `%s` found in [%s](%s)''
               [S ''@nobody:example.org'', S ''Demo list'', URL ''!list:example.org'']]
   \<and> HandleCommand unbanEvaluator (demoCommand ''!remove-ban L @friend:example.org'')
     = Done [Notice ''`%s` does not have a ban recommendation'' [S ''@friend:example.org'']]
   \<and> HandleCommand unbanEvaluator (demoCommand ''!remove-unban L @friend:example.org'')
     = Done [SendStateEventCall ''!list:example.org'' EntityTypeUser ''unban-friend'' emptyPolicy,
             SuccessReaction ''$command'']
   \<and> HandleCommand unbanEvaluator (demoCommand ''!remove-policy L @friend:example.org'')
     = Done [SendStateEventCall ''!list:example.org'' EntityTypeUser ''unban-friend'' emptyPolicy,
             SuccessReaction ''$command'']"
proof -
  have nobody:
    "HandleCommand unbanEvaluator (demoCommand ''!remove-ban L @nobody:example.org'')
     = Done [Notice ''No rule banning `%s` found in [%s](%s)''
               [S ''@nobody:example.org'', S ''Demo list'', URL ''!list:example.org'']]"
    using removal_command
            [OF not_dropped_unbanEvaluator, of "''!remove-ban L @nobody:example.org''" "''!remove-ban''"
               "''L''" "''@nobody:example.org''" "[]" "''!remove-ban''" demoList EntityTypeUser]
    by (simp add: Fields_remove_ban_nobody ToLower_remove_ban unbanEvaluator_list
          validateEntity_user unbanEvaluator_nobody demoList_def)
  have rejected:
    "HandleCommand unbanEvaluator (demoCommand ''!remove-ban L @friend:example.org'')
     = Done [Notice ''`%s` does not have a ban recommendation'' [S ''@friend:example.org'']]"
    using removal_command
            [OF not_dropped_unbanEvaluator, of "''!remove-ban L @friend:example.org''" "''!remove-ban''"
               "''L''" "''@friend:example.org''" "[]" "''!remove-ban''" demoList EntityTypeUser]
    by (simp add: Fields_remove_ban_friend ToLower_remove_ban unbanEvaluator_list
          validateEntity_user unbanEvaluator_friend unbanEvaluator_summary unbanRecord_fields
          Unban_not_Ban)
  have unban:
    "HandleCommand unbanEvaluator (demoCommand ''!remove-unban L @friend:example.org'')
     = Done [SendStateEventCall ''!list:example.org'' EntityTypeUser ''unban-friend'' emptyPolicy,
             SuccessReaction ''$command'']"
    using removal_command
            [OF not_dropped_unbanEvaluator, of "''!remove-unban L @friend:example.org''" "''!remove-unban''"
               "''L''" "''@friend:example.org''" "[]" "''!remove-unban''" demoList EntityTypeUser]
    by (simp add: Fields_remove_unban_friend ToLower_remove_unban unbanEvaluator_list
          validateEntity_user unbanEvaluator_friend unbanEvaluator_summary unbanRecord_fields
          unbanEvaluator_send demoList_def)
  have policy:
    "HandleCommand unbanEvaluator (demoCommand ''!remove-policy L @friend:example.org'')
     = Done [SendStateEventCall ''!list:example.org'' EntityTypeUser ''unban-friend'' emptyPolicy,
             SuccessReaction ''$command'']"
    using removal_command
            [OF not_dropped_unbanEvaluator, of "''!remove-policy L @friend:example.org''" "''!remove-policy''"
               "''L''" "''@friend:example.org''" "[]" "''!remove-policy''" demoList EntityTypeUser]
    by (simp add: Fields_remove_policy_friend ToLower_remove_policy unbanEvaluator_list
          validateEntity_user unbanEvaluator_friend unbanEvaluator_summary unbanRecord_fields
          unbanEvaluator_send demoList_def)
  show ?thesis
    using nobody rejected unban policy by simp
qed

text \<open>
  A record can be found and yet not be looked at. The list holds a takedown of
  \<^verbatim>\<open>@evil:example.org\<close> and the summary of the match has no record: \<^verbatim>\<open>!remove-ban\<close> is not
  rejected, although the record does not recommend a ban, and the empty content goes
  under the key derived from the entity alone, not under the key of the record. The list
  holds a ban of \<^verbatim>\<open>@old:example.org\<close> under the empty state key: \<^verbatim>\<open>!remove-ban\<close> publishes
  under the derived key as well.
\<close>

lemma Fields_remove_ban_evil:
  "Fields ''!remove-ban L @evil:example.org'' = [''!remove-ban'', ''L'', ''@evil:example.org'']"
  by (simp add: Fields_def isSpace_def)

lemma Fields_remove_ban_old:
  "Fields ''!remove-ban L @old:example.org'' = [''!remove-ban'', ''L'', ''@old:example.org'']"
  by (simp add: Fields_def isSpace_def)

lemma removal_stores:
  "\<not> dropped takedownEvaluator (demoCommand body)"
  "\<not> dropped unkeyedEvaluator (demoCommand body)"
  "FindListByShortcode takedownEvaluator ''L'' = Some demoList"
  "FindListByShortcode unkeyedEvaluator ''L'' = Some demoList"
  "MatchExact takedownEvaluator ls t ''@evil:example.org'' = [plainTakedown]"
  "MatchExact unkeyedEvaluator ls t ''@old:example.org'' = [unkeyedBan]"
  "Recommendations takedownEvaluator [plainTakedown] = None"
  "Recommendations unkeyedEvaluator [unkeyedBan] = Some unkeyedBan"
  "SendStateEvent takedownEvaluator r t k c = Inr ''$published''"
  "SendStateEvent unkeyedEvaluator r t k c = Inr ''$published''"
  "Base64 takedownEvaluator x = ''base64('' @ x @ '')''"
  "Base64 unkeyedEvaluator x = ''base64('' @ x @ '')''"
  "SHA256 takedownEvaluator x = ''sha256('' @ x @ '')''"
  "SHA256 unkeyedEvaluator x = ''sha256('' @ x @ '')''"
  by (simp_all add: dropped_def demoCommand_def takedownEvaluator_def unkeyedEvaluator_def
        demoEvaluator_def plainTakedown_def unkeyedBan_def PolicyRecommendationBan_def
        PolicyRecommendationUnban_def PolicyRecommendationUnstableTakedown_def)

theorem removal_ignores_found_record:
  "MatchExact takedownEvaluator [''!list:example.org''] EntityTypeUser ''@evil:example.org''
     = [plainTakedown]
   \<and> Recommendation plainTakedown \<noteq> PolicyRecommendationBan
   \<and> StateKey plainTakedown = ''base64(sha256(@evil:example.orgorg.matrix.msc4204.takedown))''
   \<and> HandleCommand takedownEvaluator (demoCommand ''!remove-ban L @evil:example.org'')
     = Done [SendStateEventCall ''!list:example.org'' EntityTypeUser
               ''base64(sha256(@evil:example.org))'' emptyPolicy,
             SuccessReaction ''$command'']
   \<and> MatchExact unkeyedEvaluator [''!list:example.org''] EntityTypeUser ''@old:example.org''
     = [unkeyedBan]
   \<and> Recommendation unkeyedBan = PolicyRecommendationBan \<and> StateKey unkeyedBan = []
   \<and> HandleCommand unkeyedEvaluator (demoCommand ''!remove-ban L @old:example.org'')
     = Done [SendStateEventCall ''!list:example.org'' EntityTypeUser
               ''base64(sha256(@old:example.org))'' emptyPolicy,
             SuccessReaction ''$command'']"
proof -
  have takedown:
    "HandleCommand takedownEvaluator (demoCommand ''!remove-ban L @evil:example.org'')
     = HandleCommand_remove takedownEvaluator (demoCommand ''!remove-ban L @evil:example.org'')
         ''!remove-ban'' [''L'', ''@evil:example.org'']"
    using HandleCommand_remove_eq
            [OF removal_stores(1), of "''!remove-ban L @evil:example.org''" "''!remove-ban''"
               "[''L'', ''@evil:example.org'']"]
    by (simp add: Fields_remove_ban_evil ToLower_remove_ban)
  have unkeyed:
    "HandleCommand unkeyedEvaluator (demoCommand ''!remove-ban L @old:example.org'')
     = HandleCommand_remove unkeyedEvaluator (demoCommand ''!remove-ban L @old:example.org'')
         ''!remove-ban'' [''L'', ''@old:example.org'']"
    using HandleCommand_remove_eq
            [OF removal_stores(2), of "''!remove-ban L @old:example.org''" "''!remove-ban''"
               "[''L'', ''@old:example.org'']"]
    by (simp add: Fields_remove_ban_old ToLower_remove_ban)
  have unkeyed_fields:
    "Recommendation unkeyedBan = PolicyRecommendationBan" "StateKey unkeyedBan = []"
    by (simp_all add: unkeyedBan_def)
  have takedown_run:
    "HandleCommand_remove takedownEvaluator (demoCommand ''!remove-ban L @evil:example.org'')
         ''!remove-ban'' [''L'', ''@evil:example.org'']
     = Done [SendStateEventCall ''!list:example.org'' EntityTypeUser
               ''base64(sha256(@evil:example.org))'' emptyPolicy,
             SuccessReaction ''$command'']"
    by (simp add: HandleCommand_remove_def removal_stores validateEntity_user demoList_def
          SendPolicy_def)
       (simp add: emptyPolicy_def)
  have unkeyed_run:
    "HandleCommand_remove unkeyedEvaluator (demoCommand ''!remove-ban L @old:example.org'')
         ''!remove-ban'' [''L'', ''@old:example.org'']
     = Done [SendStateEventCall ''!list:example.org'' EntityTypeUser
               ''base64(sha256(@old:example.org))'' emptyPolicy,
             SuccessReaction ''$command'']"
    by (simp add: HandleCommand_remove_def removal_stores validateEntity_user demoList_def
          SendPolicy_def unkeyed_fields)
       (simp add: emptyPolicy_def)
  show ?thesis
    using takedown takedown_run unkeyed unkeyed_run
    by (simp add: removal_stores)
       (simp add: plainTakedown_def unkeyedBan_def PolicyRecommendationBan_def
          PolicyRecommendationUnstableTakedown_def)
qed

section \<open>The gate on reports\<close>

text \<open>
  Claim C3. When the reporter is not an admin, or the reason does not start with a slash, or
  there is no target user (none given and no event reported, or a reported event without a
  sender), a report makes at most one call and that call is a notice: no state event is
  sent, nobody is kicked. When the report names an event, a room or a user, the handler
  sends exactly one notice, the forward of the report: for an event, the notice with the
  event and its sender (or, when the event cannot be fetched, the notice that says so,
  with the wrapped error returned); else for a room, the notice with the room; else the
  notice with the user. No other error is returned.
\<close>

theorem report_gate:
  assumes "sender \<notin> Admins pe \<or> \<not> HasPrefix reason ''/''
           \<or> (eventID = [] \<and> targetUserID = [])
           \<or> (\<exists>ev. eventID \<noteq> [] \<and> GetEvent pe roomID eventID = Inr ev \<and> Sender ev = [])"
  shows "(\<exists>effs e. HandleReport pe sender targetUserID roomID eventID reason = Return effs e
            \<and> list_all isNotice effs \<and> length effs \<le> 1
            \<and> (e = None \<or> (\<exists>x. e = Some (WrappedError ''failed to fetch event: %w'' x))))
       \<and> (eventID \<noteq> [] \<or> roomID \<noteq> [] \<or> targetUserID \<noteq> []
            \<longrightarrow> HandleReport pe sender targetUserID roomID eventID reason
                = (if eventID \<noteq> [] then
                     (case GetEvent pe roomID eventID of
                        Inl e \<Rightarrow>
                          Return
                            [Notice ''[%s](%s) reported [an event](%s) for %s, but the event could not be fetched: %v''
                               [S sender, URL sender, EventURL roomID eventID, S reason, S e]]
                            (Some (WrappedError ''failed to fetch event: %w'' e))
                      | Inr ev \<Rightarrow>
                          Return
                            [Notice ''[%s](%s) reported [an event](%s) from [%s](%s) for %s''
                               [S sender, URL sender, EventURL roomID eventID,
                                S (Sender ev), URL (Sender ev), S reason]]
                            None)
                   else if roomID \<noteq> [] then
                     Return
                       [Notice ''[%s](%s) reported [a room](%s) for %s''
                          [S sender, URL sender, URL roomID, S reason]]
                       None
                   else
                     Return
                       [Notice ''[%s](%s) reported [%s](%s) for %s''
                          [S sender, URL sender, URL targetUserID, S reason]]
                       None))"
proof (cases "eventID = []")
  case True
  with assms show ?thesis
    by (auto simp add: HandleReport_def Let_def)
next
  case False
  show ?thesis
  proof (cases "GetEvent pe roomID eventID")
    case (Inl e)
    with False show ?thesis by (simp add: HandleReport_def)
  next
    case (Inr ev)
    with False assms show ?thesis
      by (auto simp add: HandleReport_def Let_def)
  qed
qed

text \<open>
  The theorem at a reporter who is not an admin and whose reason is a well-formed
  \<^verbatim>\<open>/ban\<close>: the report of a user, of a room, and of an event that cannot be fetched.
\<close>

theorem report_gate_witness:
  "''@mallory:example.org'' \<notin> Admins demoEvaluator
   \<and> HasPrefix ''/ban L spam'' ''/''
   \<and> HandleReport demoEvaluator ''@mallory:example.org'' ''@victim:example.org'' [] [] ''/ban L spam''
       = Return [Notice ''[%s](%s) reported [%s](%s) for %s''
                   [S ''@mallory:example.org'', URL ''@mallory:example.org'',
                    URL ''@victim:example.org'', S ''/ban L spam'']]
                None
   \<and> HandleReport demoEvaluator ''@mallory:example.org'' [] ''!room:example.org'' [] ''/ban L spam''
       = Return [Notice ''[%s](%s) reported [a room](%s) for %s''
                   [S ''@mallory:example.org'', URL ''@mallory:example.org'',
                    URL ''!room:example.org'', S ''/ban L spam'']]
                None
   \<and> HandleReport demoEvaluator ''@mallory:example.org'' [] ''!room:example.org'' ''$event''
         ''/ban L spam''
       = Return [Notice ''[%s](%s) reported [an event](%s) for %s, but the event could not be fetched: %v''
                   [S ''@mallory:example.org'', URL ''@mallory:example.org'',
                    EventURL ''!room:example.org'' ''$event'', S ''/ban L spam'',
                    S ''event not found'']]
                (Some (WrappedError ''failed to fetch event: %w'' ''event not found''))
   \<and> (\<exists>effs e.
         HandleReport demoEvaluator ''@mallory:example.org'' ''@victim:example.org'' [] [] ''/ban L spam''
           = Return effs e
         \<and> list_all isNotice effs \<and> length effs \<le> 1)"
proof -
  have outsider: "''@mallory:example.org'' \<notin> Admins demoEvaluator"
    by (simp add: demoEvaluator_def)
  have fetch: "GetEvent demoEvaluator ''!room:example.org'' ''$event'' = Inl ''event not found''"
    by (simp add: demoEvaluator_def)
  have user:
    "HandleReport demoEvaluator ''@mallory:example.org'' ''@victim:example.org'' [] [] ''/ban L spam''
       = Return [Notice ''[%s](%s) reported [%s](%s) for %s''
                   [S ''@mallory:example.org'', URL ''@mallory:example.org'',
                    URL ''@victim:example.org'', S ''/ban L spam'']]
                None"
    using report_gate
            [of "''@mallory:example.org''" demoEvaluator "''/ban L spam''" "[]"
               "''@victim:example.org''" "[]", THEN conjunct2]
    by (simp add: outsider)
  have room:
    "HandleReport demoEvaluator ''@mallory:example.org'' [] ''!room:example.org'' [] ''/ban L spam''
       = Return [Notice ''[%s](%s) reported [a room](%s) for %s''
                   [S ''@mallory:example.org'', URL ''@mallory:example.org'',
                    URL ''!room:example.org'', S ''/ban L spam'']]
                None"
    using report_gate
            [of "''@mallory:example.org''" demoEvaluator "''/ban L spam''" "[]"
               "[]" "''!room:example.org''", THEN conjunct2]
    by (simp add: outsider)
  have event:
    "HandleReport demoEvaluator ''@mallory:example.org'' [] ''!room:example.org'' ''$event''
         ''/ban L spam''
       = Return [Notice ''[%s](%s) reported [an event](%s) for %s, but the event could not be fetched: %v''
                   [S ''@mallory:example.org'', URL ''@mallory:example.org'',
                    EventURL ''!room:example.org'' ''$event'', S ''/ban L spam'',
                    S ''event not found'']]
                (Some (WrappedError ''failed to fetch event: %w'' ''event not found''))"
    using report_gate
            [of "''@mallory:example.org''" demoEvaluator "''/ban L spam''" "''$event''"
               "[]" "''!room:example.org''", THEN conjunct2]
    by (simp add: outsider fetch)
  have gated:
    "\<exists>effs e.
       HandleReport demoEvaluator ''@mallory:example.org'' ''@victim:example.org'' [] [] ''/ban L spam''
         = Return effs e
       \<and> list_all isNotice effs \<and> length effs \<le> 1"
    using report_gate
            [of "''@mallory:example.org''" demoEvaluator "''/ban L spam''" "[]"
               "''@victim:example.org''" "[]", THEN conjunct1]
    by (auto simp add: outsider)
  show ?thesis
    using outsider user room event gated by (simp add: HasPrefix_def)
qed

section \<open>The state key a ban is published under\<close>

text \<open>
  The scan of \<^verbatim>\<open>!ban\<close> keeps the state key of the last policy of the match that is in the
  list's room and carries the target as its plain-text entity; a command that is not
  blocked publishes under that key, or under the derived key when the scan found none.
\<close>

lemma existingStateKeyOf_filter:
  "existingStateKeyOf listRoom target match k
   = (case filter (\<lambda>policy. RoomID policy = listRoom \<and> Entity policy = target) match of
        [] \<Rightarrow> k
      | p # ps \<Rightarrow> StateKey (last (p # ps)))"
  by (induction match arbitrary: k) (auto split: list.splits)

lemma HandleCommand_ban_publishes:
  assumes "\<not> dropped pe evt"
    and "Fields (Body evt) = f # pre @ shortcode # target # reasonWords"
    and "ToLower f = ''!ban'' \<or> ToLower f = ''!takedown''"
    and "(pre = [] \<and> shortcode \<noteq> ''--hash'') \<or> pre = [''--hash'']"
    and "FindListByShortcode pe shortcode = Some list"
    and "validateEntity target = Some entityType"
    and "\<forall>r. Recommendations pe (MatchExact pe (GetWatchedLists pe) entityType target) = Some r
             \<longrightarrow> Recommendation r \<noteq> PolicyRecommendationUnban"
  shows "HandleCommand pe evt
         = Done [fst (SendPolicy pe (ListRoomID list) entityType
                        (existingStateKeyOf (ListRoomID list) target
                           (MatchExact pe (GetWatchedLists pe) entityType target) [])
                        target (banPolicy pe (ToLower f) (pre \<noteq> []) target reasonWords)),
                 (case snd (SendPolicy pe (ListRoomID list) entityType
                        (existingStateKeyOf (ListRoomID list) target
                           (MatchExact pe (GetWatchedLists pe) entityType target) [])
                        target (banPolicy pe (ToLower f) (pre \<noteq> []) target reasonWords)) of
                    Inl e \<Rightarrow> Notice ''Failed to send ban policy: %v'' [S e]
                  | Inr eventID \<Rightarrow> SuccessReaction (ID evt))]"
proof -
  have eq: "HandleCommand pe evt
        = HandleCommand_ban pe evt (ToLower f) (pre @ shortcode # target # reasonWords)"
    using assms(1-3) by (rule HandleCommand_ban_eq)
  show ?thesis
    unfolding eq using assms(4-7)
    by (auto simp add: HandleCommand_ban_def Let_def case_prod_beta split: sum.splits)
qed

lemma Fields_takedown_evil:
  "Fields ''!takedown L @evil:example.org'' = [''!takedown'', ''L'', ''@evil:example.org'']"
  by (simp add: Fields_def isSpace_def)

lemma Fields_ban_hash_evil:
  "Fields ''!ban --hash L @evil:example.org'' = [''!ban'', ''--hash'', ''L'', ''@evil:example.org'']"
  by (simp add: Fields_def isSpace_def)

lemma ToLower_takedown: "ToLower ''!takedown'' = ''!takedown''"
  by code_simp

lemma not_dropped_takedownEvaluator: "\<not> dropped takedownEvaluator (demoCommand body)"
  by (simp add: dropped_def takedownEvaluator_def demoEvaluator_def demoCommand_def)

lemma not_dropped_hashedEvaluator: "\<not> dropped hashedEvaluator (demoCommand body)"
  by (simp add: dropped_def hashedEvaluator_def demoEvaluator_def demoCommand_def)

lemma recommendation_tags:
  "PolicyRecommendationBan \<noteq> PolicyRecommendationUnban"
  "PolicyRecommendationUnstableTakedown \<noteq> PolicyRecommendationUnban"
  "PolicyRecommendationUnstableTakedown \<noteq> PolicyRecommendationBan"
  by (simp_all add: PolicyRecommendationUnstableTakedown_def PolicyRecommendationBan_def
        PolicyRecommendationUnban_def)

lemma evil_evaluators:
  "FindListByShortcode demoEvaluator ''L'' = Some demoList"
  "FindListByShortcode takedownEvaluator ''L'' = Some demoList"
  "FindListByShortcode hashedEvaluator ''L'' = Some demoList"
  "MatchExact demoEvaluator ls t e = []"
  "MatchExact takedownEvaluator ls t ''@evil:example.org'' = [plainTakedown]"
  "MatchExact hashedEvaluator ls t ''@evil:example.org'' = [hashedBan]"
  "Recommendations demoEvaluator [] = None"
  "Recommendations takedownEvaluator [plainTakedown] = None"
  "Recommendations hashedEvaluator [hashedBan] = Some hashedBan"
  "SendStateEvent demoEvaluator r t k c = Inr ''$published''"
  "SendStateEvent takedownEvaluator r t k c = Inr ''$published''"
  "SendStateEvent hashedEvaluator r t k c = Inr ''$published''"
  "Base64 demoEvaluator x = ''base64('' @ x @ '')''"
  "Base64 takedownEvaluator x = ''base64('' @ x @ '')''"
  "Base64 hashedEvaluator x = ''base64('' @ x @ '')''"
  "SHA256 demoEvaluator x = ''sha256('' @ x @ '')''"
  "SHA256 takedownEvaluator x = ''sha256('' @ x @ '')''"
  "SHA256 hashedEvaluator x = ''sha256('' @ x @ '')''"
  by (simp_all add: takedownEvaluator_def hashedEvaluator_def demoEvaluator_def plainTakedown_def
        hashedBan_def recommendation_tags)

lemma evil_records:
  "RoomID plainTakedown = ''!list:example.org''" "RoomID hashedBan = ''!list:example.org''"
  "Entity plainTakedown = ''@evil:example.org''" "Entity hashedBan = []"
  "StateKey plainTakedown = ''base64(sha256(@evil:example.orgorg.matrix.msc4204.takedown))''"
  "StateKey hashedBan = ''base64(sha256(@evil:example.orgorg.matrix.msc4204.takedown))''"
  "Recommendation hashedBan = PolicyRecommendationBan"
  "ModPolicyContent.truncate plainTakedown
   = \<lparr>Entity = ''@evil:example.org'', Reason = [],
      Recommendation = PolicyRecommendationUnstableTakedown, UnstableHashes = None\<rparr>"
  "ModPolicyContent.truncate hashedBan
   = \<lparr>Entity = [], Reason = [], Recommendation = PolicyRecommendationBan,
      UnstableHashes = Some ''base64(sha256(@evil:example.org))''\<rparr>"
  by (simp_all add: plainTakedown_def hashedBan_def ModPolicyContent.truncate_def)

lemma takedown_into_empty_list:
  "HandleCommand demoEvaluator (demoCommand ''!takedown L @evil:example.org'')
   = Done [SendStateEventCall ''!list:example.org'' EntityTypeUser
             ''base64(sha256(@evil:example.orgorg.matrix.msc4204.takedown))''
             \<lparr>Entity = ''@evil:example.org'', Reason = [],
              Recommendation = PolicyRecommendationUnstableTakedown, UnstableHashes = None\<rparr>,
           SuccessReaction ''$command'']"
proof -
  have "HandleCommand demoEvaluator (demoCommand ''!takedown L @evil:example.org'')
        = HandleCommand_ban demoEvaluator (demoCommand ''!takedown L @evil:example.org'')
            ''!takedown'' [''L'', ''@evil:example.org'']"
    using HandleCommand_ban_eq
            [OF not_dropped_demoEvaluator, of "''!takedown L @evil:example.org''" "''!takedown''"
               "[''L'', ''@evil:example.org'']"]
    by (simp add: Fields_takedown_evil ToLower_takedown)
  then show ?thesis
    by (simp add: HandleCommand_ban_def evil_evaluators validateEntity_user demoList_def
          SendPolicy_def banPolicy_def)
       (simp add: PolicyRecommendationUnstableTakedown_def)
qed

lemma hashed_ban_over_takedown:
  "HandleCommand takedownEvaluator (demoCommand ''!ban --hash L @evil:example.org'')
   = Done [SendStateEventCall ''!list:example.org'' EntityTypeUser
             ''base64(sha256(@evil:example.orgorg.matrix.msc4204.takedown))''
             \<lparr>Entity = [], Reason = [], Recommendation = PolicyRecommendationBan,
              UnstableHashes = Some ''base64(sha256(@evil:example.org))''\<rparr>,
           SuccessReaction ''$command'']"
proof -
  have "HandleCommand takedownEvaluator (demoCommand ''!ban --hash L @evil:example.org'')
        = HandleCommand_ban takedownEvaluator (demoCommand ''!ban --hash L @evil:example.org'')
            ''!ban'' [''--hash'', ''L'', ''@evil:example.org'']"
    using HandleCommand_ban_eq
            [OF not_dropped_takedownEvaluator, of "''!ban --hash L @evil:example.org''" "''!ban''"
               "[''--hash'', ''L'', ''@evil:example.org'']"]
    by (simp add: Fields_ban_hash_evil ToLower_ban)
  then show ?thesis
    by (simp add: HandleCommand_ban_def evil_evaluators evil_records validateEntity_user
          demoList_def SendPolicy_def banPolicy_def)
qed

lemma hashed_ban_again:
  "HandleCommand hashedEvaluator (demoCommand ''!ban --hash L @evil:example.org'')
   = Done [SendStateEventCall ''!list:example.org'' EntityTypeUser
             ''base64(sha256(@evil:example.orgm.ban))''
             \<lparr>Entity = [], Reason = [], Recommendation = PolicyRecommendationBan,
              UnstableHashes = Some ''base64(sha256(@evil:example.org))''\<rparr>,
           SuccessReaction ''$command'']"
proof -
  have "HandleCommand hashedEvaluator (demoCommand ''!ban --hash L @evil:example.org'')
        = HandleCommand_ban hashedEvaluator (demoCommand ''!ban --hash L @evil:example.org'')
            ''!ban'' [''--hash'', ''L'', ''@evil:example.org'']"
    using HandleCommand_ban_eq
            [OF not_dropped_hashedEvaluator, of "''!ban --hash L @evil:example.org''" "''!ban''"
               "[''--hash'', ''L'', ''@evil:example.org'']"]
    by (simp add: Fields_ban_hash_evil ToLower_ban)
  then show ?thesis
    by (simp add: HandleCommand_ban_def evil_evaluators evil_records recommendation_tags
          validateEntity_user demoList_def SendPolicy_def banPolicy_def)
       (simp add: PolicyRecommendationBan_def)
qed

text \<open>
  Claim C1 fails once the record in the list is stored as a hash. Into the empty list,
  \<^verbatim>\<open>!takedown L @evil:example.org\<close> publishes a record under the key derived for a takedown;
  \<^verbatim>\<open>!ban --hash L @evil:example.org\<close> finds it and reuses its key, writing a hashed ban over
  it. The same \<^verbatim>\<open>!ban --hash L @evil:example.org\<close> issued again does not reuse that key: the
  scan compares the plain-text entity, which the hashed record does not have, and the ban
  goes under the key derived for a ban. The list now holds two records for the entity.
\<close>

theorem ban_twice_two_state_keys:
  "HandleCommand demoEvaluator (demoCommand ''!takedown L @evil:example.org'')
     = Done [SendStateEventCall (RoomID plainTakedown) EntityTypeUser (StateKey plainTakedown)
               (ModPolicyContent.truncate plainTakedown),
             SuccessReaction ''$command'']
   \<and> MatchExact takedownEvaluator (GetWatchedLists takedownEvaluator) EntityTypeUser
         ''@evil:example.org'' = [plainTakedown]
   \<and> HandleCommand takedownEvaluator (demoCommand ''!ban --hash L @evil:example.org'')
     = Done [SendStateEventCall (RoomID hashedBan) EntityTypeUser (StateKey hashedBan)
               (ModPolicyContent.truncate hashedBan),
             SuccessReaction ''$command'']
   \<and> RoomID hashedBan = RoomID plainTakedown \<and> StateKey hashedBan = StateKey plainTakedown
   \<and> MatchExact hashedEvaluator (GetWatchedLists hashedEvaluator) EntityTypeUser
         ''@evil:example.org'' = [hashedBan]
   \<and> HandleCommand hashedEvaluator (demoCommand ''!ban --hash L @evil:example.org'')
     = Done [SendStateEventCall (RoomID hashedBan) EntityTypeUser
               ''base64(sha256(@evil:example.orgm.ban))''
               (ModPolicyContent.truncate hashedBan),
             SuccessReaction ''$command'']
   \<and> StateKey hashedBan \<noteq> ''base64(sha256(@evil:example.orgm.ban))''"
  using takedown_into_empty_list hashed_ban_over_takedown hashed_ban_again
  by (simp add: evil_records evil_evaluators)

section \<open>The report path and the command path\<close>

lemma not_dropped_banEvaluator: "\<not> dropped banEvaluator (demoCommand body)"
  by (simp add: dropped_def banEvaluator_def demoEvaluator_def demoCommand_def)

lemma TrimPrefix_ban: "ToLower (TrimPrefix ''/ban'' ''/'') = ''ban''"
  by code_simp

text \<open>
  Claim C4, as the code has it. An admin's report with the reason \<^verbatim>\<open>/ban <list> <reason...>\<close>
  against a target user has a conflict check of its own, on the user match over the watched
  lists: any summary record rejects the report, with the error \<^verbatim>\<open>UNBAN_RECOMMENDED\<close> for an
  unban and \<^verbatim>\<open>ALREADY_BANNED\<close> for anything else, and nothing is sent. Without a summary
  record and with a known list, the report publishes the ban under the derived state key; it
  never reuses a key. In that case, without a summary record of the user match and with a
  known list, the direct \<^verbatim>\<open>!ban\<close> on the same list, user and reason publishes the same
  content under the same key when it is not blocked by its own exact match and its scan
  finds no key to reuse. Where the user match holds a record that the exact match does not
  hold, the report is rejected and the command is not.
\<close>

theorem report_ban_conflicts:
  assumes "sender \<in> Admins pe"
    and "HasPrefix reason ''/''"
    and "Fields reason = f # shortcode # reasonWord # reasonWords"
    and "ToLower (TrimPrefix f ''/'') = ''ban''"
    and "targetUserID \<noteq> []"
    and "(eventID = [] \<and> targetUserID0 = targetUserID)
         \<or> (eventID \<noteq> [] \<and> (\<exists>ev. GetEvent pe roomID eventID = Inr ev \<and> Sender ev = targetUserID))"
  shows "(\<forall>rec. Recommendations pe (MatchUser pe (GetWatchedLists pe) targetUserID) = Some rec
            \<longrightarrow> HandleReport pe sender targetUserID0 roomID eventID reason
                = Return []
                    (Some (if Recommendation rec = PolicyRecommendationUnban
                           then RespError ''FI.MAU.MEOWLNIR.UNBAN_RECOMMENDED''
                                  ''%s has an unban recommendation: %s''
                                  [S targetUserID, S (Reason rec)] 409
                           else RespError ''FI.MAU.MEOWLNIR.ALREADY_BANNED''
                                  ''%s is already banned for: %s''
                                  [S targetUserID, S (Reason rec)] 409)))
       \<and> (\<forall>list. Recommendations pe (MatchUser pe (GetWatchedLists pe) targetUserID) = None
                 \<and> FindListByShortcode pe shortcode = Some list
            \<longrightarrow> (\<exists>notice e.
                    HandleReport pe sender targetUserID0 roomID eventID reason
                    = Return
                        [SendStateEventCall (ListRoomID list) EntityTypeUser
                           (Base64 pe (SHA256 pe (targetUserID @ PolicyRecommendationBan)))
                           \<lparr>Entity = targetUserID, Reason = Join (reasonWord # reasonWords) '' '',
                            Recommendation = PolicyRecommendationBan, UnstableHashes = None\<rparr>,
                         notice] e)
               \<and> (\<forall>evt c.
                     \<not> dropped pe evt
                     \<and> Fields (Body evt) = c # shortcode # targetUserID # reasonWord # reasonWords
                     \<and> ToLower c = ''!ban'' \<and> shortcode \<noteq> ''--hash''
                     \<and> validateEntity targetUserID = Some EntityTypeUser
                     \<and> (\<forall>r. Recommendations pe
                                (MatchExact pe (GetWatchedLists pe) EntityTypeUser targetUserID) = Some r
                              \<longrightarrow> Recommendation r \<noteq> PolicyRecommendationUnban)
                     \<and> existingStateKeyOf (ListRoomID list) targetUserID
                           (MatchExact pe (GetWatchedLists pe) EntityTypeUser targetUserID) [] = []
                     \<longrightarrow> (\<exists>reaction.
                            HandleCommand pe evt
                            = Done
                                [SendStateEventCall (ListRoomID list) EntityTypeUser
                                   (Base64 pe (SHA256 pe (targetUserID @ PolicyRecommendationBan)))
                                   \<lparr>Entity = targetUserID,
                                    Reason = Join (reasonWord # reasonWords) '' '',
                                    Recommendation = PolicyRecommendationBan, UnstableHashes = None\<rparr>,
                                 reaction])))"
proof -
  have report:
    "HandleReport pe sender targetUserID0 roomID eventID reason
     = HandleReport_ban pe sender targetUserID (shortcode # reasonWord # reasonWords)"
    using assms by (auto simp add: HandleReport_def Let_def)
  have command:
    "\<exists>reaction.
       HandleCommand pe evt
       = Done [SendStateEventCall (ListRoomID list) EntityTypeUser
                 (Base64 pe (SHA256 pe (targetUserID @ PolicyRecommendationBan)))
                 \<lparr>Entity = targetUserID, Reason = Join (reasonWord # reasonWords) '' '',
                  Recommendation = PolicyRecommendationBan, UnstableHashes = None\<rparr>,
               reaction]"
    if "\<not> dropped pe evt"
      and "Fields (Body evt) = c # shortcode # targetUserID # reasonWord # reasonWords"
      and "ToLower c = ''!ban''" and "shortcode \<noteq> ''--hash''"
      and "validateEntity targetUserID = Some EntityTypeUser"
      and "\<forall>r. Recommendations pe (MatchExact pe (GetWatchedLists pe) EntityTypeUser targetUserID) = Some r
               \<longrightarrow> Recommendation r \<noteq> PolicyRecommendationUnban"
      and "existingStateKeyOf (ListRoomID list) targetUserID
             (MatchExact pe (GetWatchedLists pe) EntityTypeUser targetUserID) [] = []"
      and "FindListByShortcode pe shortcode = Some list"
    for evt c list
    using HandleCommand_ban_publishes
            [of pe evt c "[]" shortcode targetUserID "reasonWord # reasonWords" list EntityTypeUser]
          that
    by (simp add: SendPolicy_def banPolicy_def Let_def)
  show ?thesis
    unfolding report
    using command
    by (auto simp add: HandleReport_ban_def SendPolicy_def Let_def split: sum.splits)
qed

lemma Fields_ban_spam:
  "Fields ''!ban L @spam:example.org flood'' = [''!ban'', ''L'', ''@spam:example.org'', ''flood'']"
  by (simp add: Fields_def isSpace_def)

lemma Fields_ban_new:
  "Fields ''!ban L @new:example.org flood'' = [''!ban'', ''L'', ''@new:example.org'', ''flood'']"
  by (simp add: Fields_def isSpace_def)

lemma Fields_report_ban: "Fields ''/ban L flood'' = [''/ban'', ''L'', ''flood'']"
  by (simp add: Fields_def isSpace_def)

lemma HasPrefix_report_ban: "HasPrefix ''/ban L flood'' ''/''"
  by (simp add: HasPrefix_def)

lemma banEvaluator_facts:
  "FindListByShortcode banEvaluator ''L'' = Some demoList"
  "GetWatchedLists banEvaluator = [''!list:example.org'']"
  "MatchExact banEvaluator ls t ''@spam:example.org'' = [banRecord]"
  "MatchUser banEvaluator ls ''@spam:example.org'' = [banRecord]"
  "Recommendations banEvaluator [banRecord] = Some banRecord"
  "SendStateEvent banEvaluator r t k c = Inr ''$published''"
  "''@admin:example.org'' \<in> Admins banEvaluator"
  by (simp_all add: banEvaluator_def demoEvaluator_def banRecord_def)

lemma banRecord_fields:
  "Recommendation banRecord = PolicyRecommendationBan" "Reason banRecord = ''spam''"
  "RoomID banRecord = ''!list:example.org''" "Entity banRecord = ''@spam:example.org''"
  "StateKey banRecord = ''rule:@spam:example.org''"
  by (simp_all add: banRecord_def)

lemma Ban_not_Unban: "PolicyRecommendationBan \<noteq> PolicyRecommendationUnban"
  by (simp add: PolicyRecommendationUnban_def PolicyRecommendationBan_def)

text \<open>
  With a standing ban of \<^verbatim>\<open>@spam:example.org\<close> in the list, the command publishes a new ban
  under the key of the standing one, and the report is rejected.
\<close>

theorem report_diverges_from_command:
  "HandleCommand banEvaluator (demoCommand ''!ban L @spam:example.org flood'')
     = Done [SendStateEventCall ''!list:example.org'' EntityTypeUser ''rule:@spam:example.org''
               \<lparr>Entity = ''@spam:example.org'', Reason = ''flood'',
                Recommendation = PolicyRecommendationBan, UnstableHashes = None\<rparr>,
             SuccessReaction ''$command'']
   \<and> HandleReport banEvaluator ''@admin:example.org'' ''@spam:example.org'' [] [] ''/ban L flood''
     = Return []
         (Some (RespError ''FI.MAU.MEOWLNIR.ALREADY_BANNED'' ''%s is already banned for: %s''
                  [S ''@spam:example.org'', S ''spam''] 409))"
proof -
  have command:
    "HandleCommand banEvaluator (demoCommand ''!ban L @spam:example.org flood'')
     = HandleCommand_ban banEvaluator (demoCommand ''!ban L @spam:example.org flood'') ''!ban''
         [''L'', ''@spam:example.org'', ''flood'']"
    using HandleCommand_ban_eq
            [OF not_dropped_banEvaluator, of "''!ban L @spam:example.org flood''" "''!ban''"
               "[''L'', ''@spam:example.org'', ''flood'']"]
    by (simp add: Fields_ban_spam ToLower_ban)
  have published:
    "HandleCommand_ban banEvaluator (demoCommand ''!ban L @spam:example.org flood'') ''!ban''
         [''L'', ''@spam:example.org'', ''flood'']
     = Done [SendStateEventCall ''!list:example.org'' EntityTypeUser ''rule:@spam:example.org''
               \<lparr>Entity = ''@spam:example.org'', Reason = ''flood'',
                Recommendation = PolicyRecommendationBan, UnstableHashes = None\<rparr>,
             SuccessReaction ''$command'']"
    by (simp add: HandleCommand_ban_def banEvaluator_facts banRecord_fields Ban_not_Unban
          validateEntity_user demoList_def SendPolicy_def banPolicy_def)
  have report:
    "HandleReport banEvaluator ''@admin:example.org'' ''@spam:example.org'' [] [] ''/ban L flood''
     = Return []
         (Some (RespError ''FI.MAU.MEOWLNIR.ALREADY_BANNED'' ''%s is already banned for: %s''
                  [S ''@spam:example.org'', S ''spam''] 409))"
    by (simp add: HandleReport_def HandleReport_ban_def banEvaluator_facts banRecord_fields
          Ban_not_Unban Fields_report_ban HasPrefix_report_ban TrimPrefix_ban)
  show ?thesis
    using command published report by simp
qed

lemma demoEvaluator_facts:
  "FindListByShortcode demoEvaluator ''L'' = Some demoList"
  "GetWatchedLists demoEvaluator = [''!list:example.org'']"
  "MatchExact demoEvaluator ls t e = []"
  "MatchUser demoEvaluator ls u = []"
  "Recommendations demoEvaluator [] = None"
  "SendStateEvent demoEvaluator r t k c = Inr ''$published''"
  "''@admin:example.org'' \<in> Admins demoEvaluator"
  "Base64 demoEvaluator x = ''base64('' @ x @ '')''"
  "SHA256 demoEvaluator x = ''sha256('' @ x @ '')''"
  by (simp_all add: demoEvaluator_def)

theorem report_ban_conflicts_witness:
  "HandleReport banEvaluator ''@admin:example.org'' ''@spam:example.org'' [] [] ''/ban L flood''
     = Return []
         (Some (RespError ''FI.MAU.MEOWLNIR.ALREADY_BANNED'' ''%s is already banned for: %s''
                  [S ''@spam:example.org'', S ''spam''] 409))
   \<and> (\<exists>notice e.
         HandleReport demoEvaluator ''@admin:example.org'' ''@new:example.org'' [] [] ''/ban L flood''
         = Return [SendStateEventCall ''!list:example.org'' EntityTypeUser
                     ''base64(sha256(@new:example.orgm.ban))''
                     \<lparr>Entity = ''@new:example.org'', Reason = ''flood'',
                      Recommendation = PolicyRecommendationBan, UnstableHashes = None\<rparr>,
                   notice] e)
   \<and> (\<exists>reaction.
         HandleCommand demoEvaluator (demoCommand ''!ban L @new:example.org flood'')
         = Done [SendStateEventCall ''!list:example.org'' EntityTypeUser
                   ''base64(sha256(@new:example.orgm.ban))''
                   \<lparr>Entity = ''@new:example.org'', Reason = ''flood'',
                    Recommendation = PolicyRecommendationBan, UnstableHashes = None\<rparr>,
                 reaction])"
proof -
  have standing:
    "HandleReport banEvaluator ''@admin:example.org'' ''@spam:example.org'' [] [] ''/ban L flood''
     = Return []
         (Some (RespError ''FI.MAU.MEOWLNIR.ALREADY_BANNED'' ''%s is already banned for: %s''
                  [S ''@spam:example.org'', S ''spam''] 409))"
    using report_ban_conflicts
            [of "''@admin:example.org''" banEvaluator "''/ban L flood''" "''/ban''" "''L''" "''flood''"
               "[]" "''@spam:example.org''" "[]" "''@spam:example.org''" "[]"]
    by (simp add: banEvaluator_facts banRecord_fields Ban_not_Unban Fields_report_ban
          HasPrefix_report_ban TrimPrefix_ban)
  have pre: "''@admin:example.org'' \<in> Admins demoEvaluator" "HasPrefix ''/ban L flood'' ''/''"
    "Fields ''/ban L flood'' = ''/ban'' # ''L'' # ''flood'' # []"
    "ToLower (TrimPrefix ''/ban'' ''/'') = ''ban''" "''@new:example.org'' \<noteq> []"
    "([] = [] \<and> ''@new:example.org'' = ''@new:example.org'')
     \<or> ([] \<noteq> [] \<and> (\<exists>ev. GetEvent demoEvaluator [] [] = Inr ev \<and> Sender ev = ''@new:example.org''))"
    by (simp_all add: demoEvaluator_facts HasPrefix_report_ban Fields_report_ban TrimPrefix_ban)
  note inst = report_ban_conflicts [OF pre, THEN conjunct2, rule_format, of demoList]
  have found:
    "Recommendations demoEvaluator
       (MatchUser demoEvaluator (GetWatchedLists demoEvaluator) ''@new:example.org'') = None
     \<and> FindListByShortcode demoEvaluator ''L'' = Some demoList"
    by (simp add: demoEvaluator_facts)
  have cmd:
    "\<not> dropped demoEvaluator (demoCommand ''!ban L @new:example.org flood'')
     \<and> Fields (Body (demoCommand ''!ban L @new:example.org flood''))
         = ''!ban'' # ''L'' # ''@new:example.org'' # ''flood'' # []
     \<and> ToLower ''!ban'' = ''!ban'' \<and> ''L'' \<noteq> ''--hash''
     \<and> validateEntity ''@new:example.org'' = Some EntityTypeUser
     \<and> (\<forall>r. Recommendations demoEvaluator
                (MatchExact demoEvaluator (GetWatchedLists demoEvaluator) EntityTypeUser
                   ''@new:example.org'') = Some r
              \<longrightarrow> Recommendation r \<noteq> PolicyRecommendationUnban)
     \<and> existingStateKeyOf (ListRoomID demoList) ''@new:example.org''
           (MatchExact demoEvaluator (GetWatchedLists demoEvaluator) EntityTypeUser
              ''@new:example.org'') [] = []"
    by (simp add: not_dropped_demoEvaluator Fields_ban_new ToLower_ban validateEntity_user
          demoEvaluator_facts)
  note report = inst [OF found, THEN conjunct1]
  note command = inst [OF found, THEN conjunct2, rule_format, OF cmd]
  show ?thesis
    using standing report command
    by (simp add: demoEvaluator_facts demoList_def PolicyRecommendationBan_def)
qed

end
